theory Spec2Isabelle
  imports Main "HOL-Library.Sublist"
begin

section \<open>Python strings\<close>

text \<open>
  A Python \<open>str\<close> is a sequence of Unicode code points, so it is modelled as a list of
  natural numbers; \<open>py\<close> embeds an ASCII literal of the source. Dictionary keys, form
  field names and header names, which the source only ever writes as ASCII literals, stay
  Isabelle strings.
\<close>

type_synonym pystr = "nat list"

definition py :: "string \<Rightarrow> pystr" where
  "py s = map of_char s"

text \<open>
  \<open>str.isspace\<close> on one code point: U+0009..U+000D, U+001C..U+0020, U+0085, U+00A0,
  U+1680, U+2000..U+200A, U+2028, U+2029, U+202F, U+205F, U+3000.
\<close>

definition isspace :: "nat \<Rightarrow> bool" where
  "isspace c \<longleftrightarrow>
     (9 \<le> c \<and> c \<le> 13) \<or> (28 \<le> c \<and> c \<le> 32) \<or> c = 133 \<or> c = 160 \<or> c = 5760 \<or>
     (8192 \<le> c \<and> c \<le> 8202) \<or> c = 8232 \<or> c = 8233 \<or> c = 8239 \<or> c = 8287 \<or> c = 12288"

definition lstrip :: "pystr \<Rightarrow> pystr" where
  "lstrip s = dropWhile isspace s"

definition rstrip :: "pystr \<Rightarrow> pystr" where
  "rstrip s = rev (dropWhile isspace (rev s))"

text \<open>\<open>s.strip()\<close>: whitespace removed at both ends, nothing changed inside.\<close>

definition strip :: "pystr \<Rightarrow> pystr" where
  "strip s = lstrip (rstrip s)"

text \<open>\<open>s.rstrip(chars)\<close>: trailing code points that occur in \<open>chars\<close> removed.\<close>

definition rstrip_chars :: "pystr \<Rightarrow> pystr \<Rightarrow> pystr" where
  "rstrip_chars chars s = rev (dropWhile (\<lambda>c. c \<in> set chars) (rev s))"

text \<open>
  \<open>x or d\<close> where \<open>x\<close> is \<open>None\<close> or a string: the default is taken for \<open>None\<close> and for
  the empty string, the only falsy values.
\<close>

definition py_or :: "pystr option \<Rightarrow> pystr \<Rightarrow> pystr" where
  "py_or x d = (case x of None \<Rightarrow> d | Some v \<Rightarrow> if v = [] then d else v)"

text \<open>\<open>sep.join(xs)\<close>.\<close>

fun join :: "pystr \<Rightarrow> pystr list \<Rightarrow> pystr" where
  "join sep [] = []"
| "join sep [x] = x"
| "join sep (x # y # ys) = x @ sep @ join sep (y # ys)"

text \<open>A value that is a string or \<open>None\<close>, as the entries of the payload dictionaries are.\<close>

datatype pyval = Str pystr | PyNone

definition dict_get :: "(string \<rightharpoonup> pyval) \<Rightarrow> string \<Rightarrow> pyval \<Rightarrow> pyval" where
  "dict_get d k dflt = (case d k of None \<Rightarrow> dflt | Some v \<Rightarrow> v)"

section \<open>Configuration\<close>

text \<open>
  The module-level settings, read once from the environment. \<open>Path(...)\<close> values are
  kept as the strings they were built from.
\<close>

type_synonym path = pystr

record config =
  CANONICAL_DOMAIN :: pystr
  LEADS_CSV :: path
  NEWSLETTER_CSV :: path
  INCLUDE_PIXELS :: bool
  ADSENSE_ENABLED :: bool
  ADSENSE_CLIENT :: pystr
  ADSENSE_SLOT_HEADER :: pystr
  ADSENSE_SLOT_INARTICLE :: pystr
  ADSENSE_SLOT_SIDEBAR :: pystr

definition getenv :: "(string \<rightharpoonup> pystr) \<Rightarrow> string \<Rightarrow> pystr \<Rightarrow> pystr" where
  "getenv env k dflt = (case env k of None \<Rightarrow> dflt | Some v \<Rightarrow> v)"

definition load_config :: "(string \<rightharpoonup> pystr) \<Rightarrow> config" where
  "load_config env =
     \<lparr> CANONICAL_DOMAIN = strip (getenv env ''CANONICAL_DOMAIN'' []),
       LEADS_CSV = getenv env ''LEADS_CSV'' (py ''leads.csv''),
       NEWSLETTER_CSV = getenv env ''NEWSLETTER_CSV'' (py ''newsletter.csv''),
       INCLUDE_PIXELS = (strip (getenv env ''INCLUDE_PIXELS'' []) \<noteq> []),
       ADSENSE_ENABLED = (strip (getenv env ''ADSENSE_ENABLED'' []) \<noteq> []),
       ADSENSE_CLIENT = strip (getenv env ''ADSENSE_CLIENT'' []),
       ADSENSE_SLOT_HEADER = strip (getenv env ''ADSENSE_SLOT_HEADER'' []),
       ADSENSE_SLOT_INARTICLE = strip (getenv env ''ADSENSE_SLOT_INARTICLE'' []),
       ADSENSE_SLOT_SIDEBAR = strip (getenv env ''ADSENSE_SLOT_SIDEBAR'' []) \<rparr>"

section \<open>Record store\<close>

text \<open>
  A file is the text it holds. The file system maps a path to the text of the file there
  and is \<open>None\<close> where \<open>path.exists()\<close> is false; an empty file is \<open>Some []\<close>. How a
  write at a path goes is part of the state: it succeeds; or \<open>path.open\<close> raises
  \<open>OSError\<close> (the directory is missing, the path may not be written) and nothing is
  written; or the file is opened and the write raises (the disk is full) after some
  number of code points of the text have reached the file.
\<close>

datatype io = Succeeds | Open_fails | Write_fails nat

record filesystem =
  files :: "path \<rightharpoonup> pystr"
  io :: "path \<Rightarrow> io"

text \<open>
  What an operation of the store leaves behind: it returns, or it raises; either way with
  the file system as it then is.
\<close>

datatype outcome = Returned filesystem | Raised filesystem

definition write_file :: "filesystem \<Rightarrow> path \<Rightarrow> pystr \<Rightarrow> filesystem" where
  "write_file fs p t = fs\<lparr>files := (files fs)(p \<mapsto> t)\<rparr>"

text \<open>
  The text that \<open>csv.writer\<close> writes for one row of cells, line terminator included, is
  computed by the \<open>csv\<close> module, which is not part of the repository: it is the parameter
  \<open>enc\<close> of the store. A cell that is \<open>None\<close> is written as the empty string.
\<close>

type_synonym row = "pystr list"
type_synonym csv_writer = "row \<Rightarrow> pystr"

fun csv_field :: "pyval \<Rightarrow> pystr" where
  "csv_field (Str s) = s"
| "csv_field PyNone = []"

text \<open>\<open>w.writerow(r)\<close> on a file that holds the text \<open>t\<close>: the text afterwards.\<close>

definition writerow :: "csv_writer \<Rightarrow> pystr \<Rightarrow> pyval list \<Rightarrow> pystr" where
  "writerow enc t r = t @ enc (map csv_field r)"

text \<open>
  \<open>with path.open(mode, ...) as f: csv.writer(f).writerow(r)\<close>, where \<open>t\<close> is the text that
  the open file holds: nothing in mode \<open>"w"\<close>, the text of the file in mode \<open>"a"\<close>.
\<close>

definition open_and_write ::
  "csv_writer \<Rightarrow> filesystem \<Rightarrow> path \<Rightarrow> pystr \<Rightarrow> pyval list \<Rightarrow> outcome" where
  "open_and_write enc fs p t r =
     (case io fs p of
        Open_fails \<Rightarrow> Raised fs
      | Write_fails n \<Rightarrow> Raised (write_file fs p (take (length t + n) (writerow enc t r)))
      | Succeeds \<Rightarrow> Returned (write_file fs p (writerow enc t r)))"

text \<open>
  \<open>ensure_csv_header\<close>: only when nothing exists at the path, the file is created (mode
  \<open>"w"\<close>) holding the header row alone.
\<close>

definition ensure_csv_header ::
  "csv_writer \<Rightarrow> filesystem \<Rightarrow> path \<Rightarrow> pystr list \<Rightarrow> outcome" where
  "ensure_csv_header enc fs p header =
     (if files fs p = None then open_and_write enc fs p [] (map Str header)
      else Returned fs)"

text \<open>
  \<open>save_row\<close>: the header check, then one row written in append mode, behind whatever
  text the file holds.
\<close>

definition save_row ::
  "csv_writer \<Rightarrow> filesystem \<Rightarrow> path \<Rightarrow> pystr list \<Rightarrow> pyval list \<Rightarrow> outcome" where
  "save_row enc fs p header r =
     (case ensure_csv_header enc fs p header of
        Raised fs1 \<Rightarrow> Raised fs1
      | Returned fs1 \<Rightarrow>
          open_and_write enc fs1 p (case files fs1 p of None \<Rightarrow> [] | Some t \<Rightarrow> t) r)"

definition lead_header :: "pystr list" where
  "lead_header =
     [py ''created_at_utc'', py ''name'', py ''email'', py ''company'', py ''website'',
      py ''budget'', py ''goal'', py ''message'', py ''source'', py ''ip'', py ''user_agent'']"

definition subscriber_header :: "pystr list" where
  "subscriber_header =
     [py ''created_at_utc'', py ''email'', py ''source'', py ''ip'', py ''user_agent'']"

text \<open>
  \<open>save_lead\<close> and \<open>save_subscriber\<close>. The result of \<open>now_iso()\<close> is the argument
  \<open>now\<close>: the clock is an input of the model.
\<close>

definition lead_row :: "pystr \<Rightarrow> (string \<rightharpoonup> pyval) \<Rightarrow> pyval list" where
  "lead_row now data =
     [Str now,
      dict_get data ''name'' (Str []),
      dict_get data ''email'' (Str []),
      dict_get data ''company'' (Str []),
      dict_get data ''website'' (Str []),
      dict_get data ''budget'' (Str []),
      dict_get data ''goal'' (Str []),
      dict_get data ''message'' (Str []),
      dict_get data ''source'' (Str []),
      dict_get data ''ip'' (Str []),
      dict_get data ''user_agent'' (Str [])]"

definition save_lead ::
  "csv_writer \<Rightarrow> config \<Rightarrow> pystr \<Rightarrow> (string \<rightharpoonup> pyval) \<Rightarrow> filesystem \<Rightarrow> outcome"
  where
  "save_lead enc cfg now data fs =
     save_row enc fs (LEADS_CSV cfg) lead_header (lead_row now data)"

definition subscriber_row :: "pystr \<Rightarrow> (string \<rightharpoonup> pyval) \<Rightarrow> pyval list" where
  "subscriber_row now data =
     [Str now,
      dict_get data ''email'' (Str []),
      dict_get data ''source'' (Str []),
      dict_get data ''ip'' (Str []),
      dict_get data ''user_agent'' (Str [])]"

definition save_subscriber ::
  "csv_writer \<Rightarrow> config \<Rightarrow> pystr \<Rightarrow> (string \<rightharpoonup> pyval) \<Rightarrow> filesystem \<Rightarrow> outcome"
  where
  "save_subscriber enc cfg now data fs =
     save_row enc fs (NEWSLETTER_CSV cfg) subscriber_header (subscriber_row now data)"

text \<open>
  The two record kinds of the store, with the operation \<open>append(kind, record)\<close> of the
  specification dispatching to \<open>save_lead\<close> and \<open>save_subscriber\<close>, and a sequence of
  appends of one kind, each with its own time stamp and record. The sequence ends where
  one of its appends raises.
\<close>

datatype kind = Lead | Subscriber

fun kind_header :: "kind \<Rightarrow> pystr list" where
  "kind_header Lead = lead_header"
| "kind_header Subscriber = subscriber_header"

fun kind_path :: "config \<Rightarrow> kind \<Rightarrow> path" where
  "kind_path cfg Lead = LEADS_CSV cfg"
| "kind_path cfg Subscriber = NEWSLETTER_CSV cfg"

fun kind_row :: "kind \<Rightarrow> pystr \<times> (string \<rightharpoonup> pyval) \<Rightarrow> pyval list" where
  "kind_row Lead (now, data) = lead_row now data"
| "kind_row Subscriber (now, data) = subscriber_row now data"

fun append_record ::
  "csv_writer \<Rightarrow> config \<Rightarrow> kind \<Rightarrow> pystr \<times> (string \<rightharpoonup> pyval) \<Rightarrow> filesystem \<Rightarrow>
   outcome" where
  "append_record enc cfg Lead (now, data) fs = save_lead enc cfg now data fs"
| "append_record enc cfg Subscriber (now, data) fs = save_subscriber enc cfg now data fs"

fun append_all ::
  "csv_writer \<Rightarrow> config \<Rightarrow> kind \<Rightarrow> (pystr \<times> (string \<rightharpoonup> pyval)) list \<Rightarrow> filesystem \<Rightarrow>
   outcome" where
  "append_all enc cfg k [] fs = Returned fs"
| "append_all enc cfg k (x # xs) fs =
     (case append_record enc cfg k x fs of
        Raised fs' \<Rightarrow> Raised fs'
      | Returned fs' \<Rightarrow> append_all enc cfg k xs fs')"

section \<open>Requests, responses and the submission handlers\<close>

text \<open>
  What a handler reads of the request: the form fields (\<open>request.form.get\<close> is \<open>None\<close>
  for a field that was not sent), the headers, and the address of the peer, which may be
  \<open>None\<close>.
\<close>

record request =
  form :: "string \<rightharpoonup> pystr"
  headers :: "string \<rightharpoonup> pystr"
  remote_addr :: "pystr option"

text \<open>
  A response is an \<open>abort\<close> with its status and message, a redirect with its status and
  target, or content with its status, MIME type and body. \<open>Unhandled\<close> stands for an
  exception that leaves the handler, which the framework answers with status 500.
\<close>

datatype response =
  Abort nat pystr | Redirect nat pystr | Content nat string pystr | Unhandled

fun status :: "response \<Rightarrow> nat" where
  "status (Abort c m) = c"
| "status (Redirect c l) = c"
| "status (Content c t b) = c"
| "status Unhandled = 500"

text \<open>The route table, in the order of the \<open>@app.route\<close> decorators.\<close>

datatype endpoint =
  EP_static_files | EP_static_img_files | EP_robots | EP_sitemap | EP_home | EP_insights
  | EP_blog | EP_blog_post | EP_start | EP_thank_you | EP_newsletter_thanks | EP_privacy
  | EP_terms | EP_lead | EP_lead_alias | EP_newsletter_subscribe

fun rule :: "endpoint \<Rightarrow> string" where
  "rule EP_static_files = ''/static/<path:filename>''"
| "rule EP_static_img_files = ''/static/img/<path:filename>''"
| "rule EP_robots = ''/robots.txt''"
| "rule EP_sitemap = ''/sitemap.xml''"
| "rule EP_home = ''/''"
| "rule EP_insights = ''/insights''"
| "rule EP_blog = ''/blog''"
| "rule EP_blog_post = ''/blog/<slug>''"
| "rule EP_start = ''/start''"
| "rule EP_thank_you = ''/thank-you''"
| "rule EP_newsletter_thanks = ''/newsletter/thanks''"
| "rule EP_privacy = ''/privacy''"
| "rule EP_terms = ''/terms''"
| "rule EP_lead = ''/api/lead''"
| "rule EP_lead_alias = ''/lead''"
| "rule EP_newsletter_subscribe = ''/api/newsletter''"

definition endpoints :: "endpoint list" where
  "endpoints =
     [EP_static_files, EP_static_img_files, EP_robots, EP_sitemap, EP_home, EP_insights,
      EP_blog, EP_blog_post, EP_start, EP_thank_you, EP_newsletter_thanks, EP_privacy,
      EP_terms, EP_lead, EP_lead_alias, EP_newsletter_subscribe]"

text \<open>The handlers that answer with \<open>render_page(...)\<close>, that is, with a page of the site.\<close>

fun renders_page :: "endpoint \<Rightarrow> bool" where
  "renders_page EP_home = True"
| "renders_page EP_insights = True"
| "renders_page EP_blog = True"
| "renders_page EP_blog_post = True"
| "renders_page EP_start = True"
| "renders_page EP_thank_you = True"
| "renders_page EP_newsletter_thanks = True"
| "renders_page EP_privacy = True"
| "renders_page EP_terms = True"
| "renders_page _ = False"

text \<open>
  The static page routes: the page routes whose rule has no variable part (every one but
  \<open>/blog/<slug>\<close>).
\<close>

definition static_page_routes :: "endpoint list" where
  "static_page_routes = filter (\<lambda>e. renders_page e \<and> CHR ''<'' \<notin> set (rule e)) endpoints"

text \<open>\<open>url_for\<close> of an endpoint whose rule has no variable part: the rule itself.\<close>

definition url_for :: "endpoint \<Rightarrow> pystr" where
  "url_for e = py (rule e)"

text \<open>
  The value stored under \<open>"ip"\<close>: \<open>request.headers.get("X-Forwarded-For",
  request.remote_addr)\<close>.
\<close>

definition client_ip :: "request \<Rightarrow> pyval" where
  "client_ip req =
     (case headers req ''X-Forwarded-For'' of
        Some v \<Rightarrow> Str v
      | None \<Rightarrow> (case remote_addr req of Some a \<Rightarrow> Str a | None \<Rightarrow> PyNone))"

definition user_agent :: "request \<Rightarrow> pyval" where
  "user_agent req = (case headers req ''User-Agent'' of Some v \<Rightarrow> Str v | None \<Rightarrow> Str [])"

text \<open>
  The pattern \<open>(request.form.get(k) or d).strip()\<close>, which both handlers apply to every
  form field they read.
\<close>

definition form_value :: "request \<Rightarrow> string \<Rightarrow> pystr \<Rightarrow> pystr" where
  "form_value req k d = strip (py_or (form req k) d)"

text \<open>
  \<open>POST /api/lead\<close>. The handler returns its response together with the file system it
  leaves behind. An \<open>OSError\<close> of the store is not caught, so it leaves the handler.
\<close>

definition lead ::
  "csv_writer \<Rightarrow> config \<Rightarrow> pystr \<Rightarrow> request \<Rightarrow> filesystem \<Rightarrow> response \<times> filesystem" where
  "lead enc cfg now req fs =
     (let name = form_value req ''name'' [];
          email = form_value req ''email'' [];
          message = form_value req ''message'' []
      in if name = [] \<or> email = [] \<or> message = []
         then (Abort 400 (py ''Missing required fields.''), fs)
         else
           (let payload = map_of
              [(''name'', Str name),
               (''email'', Str email),
               (''company'', Str (form_value req ''company'' [])),
               (''website'', Str (form_value req ''website'' [])),
               (''budget'', Str (form_value req ''budget'' [])),
               (''goal'', Str (form_value req ''goal'' [])),
               (''message'', Str message),
               (''source'', Str (form_value req ''source'' (py ''website_form''))),
               (''ip'', client_ip req),
               (''user_agent'', user_agent req)]
            in case save_lead enc cfg now payload fs of
                 Raised fs' \<Rightarrow> (Unhandled, fs')
               | Returned fs' \<Rightarrow> (Redirect 302 (url_for EP_thank_you), fs')))"

text \<open>\<open>POST /api/newsletter\<close>; 64 is the code point of \<open>@\<close>.\<close>

definition newsletter_subscribe ::
  "csv_writer \<Rightarrow> config \<Rightarrow> pystr \<Rightarrow> request \<Rightarrow> filesystem \<Rightarrow> response \<times> filesystem" where
  "newsletter_subscribe enc cfg now req fs =
     (let email = form_value req ''email'' []
      in if email = [] \<or> 64 \<notin> set email
         then (Abort 400 (py ''Enter a valid email.''), fs)
         else
           (let payload = map_of
              [(''email'', Str email),
               (''source'', Str (form_value req ''source'' (py ''newsletter''))),
               (''ip'', client_ip req),
               (''user_agent'', user_agent req)]
            in case save_subscriber enc cfg now payload fs of
                 Raised fs' \<Rightarrow> (Unhandled, fs')
               | Returned fs' \<Rightarrow> (Redirect 302 (url_for EP_newsletter_thanks), fs')))"

section \<open>Background images\<close>

text \<open>
  The two image folders, and what the functions read of the file system: whether
  \<open>(dir / filename).exists()\<close>. A path below a folder is the pair of the folder and the
  file name.
\<close>

datatype image_dir = STATIC_IMG_DIR | IMAGES_DIR

type_synonym image_files = "image_dir \<Rightarrow> pystr \<Rightarrow> bool"

definition find_bg_file :: "image_files \<Rightarrow> pystr \<Rightarrow> (image_dir \<times> pystr) option" where
  "find_bg_file ex filename =
     (if ex STATIC_IMG_DIR filename then Some (STATIC_IMG_DIR, filename)
      else if ex IMAGES_DIR filename then Some (IMAGES_DIR, filename)
      else None)"

definition bg_mapping :: "(pystr \<times> pystr) list" where
  "bg_mapping =
     [(py ''home'', py ''home_bg_1920x1080.jpg''),
      (py ''insights'', py ''insights_bg_1920x1080.jpg''),
      (py ''start'', py ''start_bg_1920x1080.jpg''),
      (py ''privacy'', py ''privacy_bg_1920x1080.jpg''),
      (py ''terms'', py ''terms_bg_1920x1080.jpg''),
      (py ''thank_you'', py ''thank_you_bg_1920x1080.jpg''),
      (py ''blog'', py ''insights_bg_1920x1080.jpg'')]"

definition bg_image_for :: "image_files \<Rightarrow> pystr \<Rightarrow> pystr option" where
  "bg_image_for ex page =
     (case map_of bg_mapping page of
        None \<Rightarrow> None
      | Some filename \<Rightarrow>
          if filename = [] then None
          else if find_bg_file ex filename \<noteq> None then Some (py ''/static/img/'' @ filename)
          else None)"

section \<open>Content registry\<close>

record post =
  slug :: pystr
  title :: pystr
  date :: pystr
  excerpt :: pystr
  html :: pystr

text \<open>
  The two configured posts. Code points outside ASCII (dashes and typographic quotes) and
  line feeds are written as numbers.
\<close>

definition post1 :: post where
  \<open>post1 =
     \<lparr> slug = py ''positioning-before-promotion'',
       title = py ''Positioning Before Promotion'',
       date = py ''2025-12-23'',
       excerpt =
         py ''Why pushing harder rarely fixes weak demand'' @ [8212] @
         py ''and what to diagnose first.'',
       html =
         [10] @ py ''<p>Most brands don'' @ [8217] @
         py ''t have an advertising problem. They have a '' @
         py ''<strong>positioning</strong> problem.</p>'' @ [10] @
         py ''<p>Before you spend more on ads, audit three things:</p>'' @ [10] @
         py ''<ul>'' @ [10] @
         py ''  <li><strong>Offer clarity:</strong> can a stranger repeat '' @
         py ''what you do in one sentence?</li>'' @ [10] @
         py ''  <li><strong>Audience fit:</strong> are you speaking to buyers '' @
         py ''or browsers?</li>'' @ [10] @
         py ''  <li><strong>Proof:</strong> do you show outcomes, not just '' @
         py ''features?</li>'' @ [10] @ py ''</ul>'' @ [10] @
         py ''<p>When these are aligned, distribution becomes leverage'' @ [8212] @
         py ''not guesswork.</p>'' @ [10] \<rparr>\<close>

definition post2 :: post where
  \<open>post2 =
     \<lparr> slug = py ''the-signal-audit-framework'',
       title = py ''The Signal Audit Framework'',
       date = py ''2025-12-23'',
       excerpt =
         py ''A simple way to diagnose why marketing isn'' @ [8217] @ py ''t converting'' @
         [8212] @ py ''without guessing.'',
       html =
         [10] @ py ''<p>The fastest way to improve marketing is to stop '' @ [8220] @
         py ''tweaking'' @ [8221] @ py '' and start diagnosing.</p>'' @ [10] @
         py ''<p>We look at:</p>'' @ [10] @ py ''<ul>'' @ [10] @
         py ''  <li><strong>Signal:</strong> what'' @ [8217] @
         py ''s being communicated (message + positioning)</li>'' @ [10] @
         py ''  <li><strong>System:</strong> how demand moves (funnel + '' @
         py ''conversion logic)</li>'' @ [10] @
         py ''  <li><strong>Distribution:</strong> where you show up '' @
         py ''(channels + targeting)</li>'' @ [10] @ py ''</ul>'' @ [10] @
         py ''<p>Fix the system, and the results follow.</p>'' @ [10] \<rparr>\<close>

definition BLOG_POSTS :: "post list" where
  "BLOG_POSTS = [post1, post2]"

text \<open>\<open>get_post\<close>: the first post of the registry with the slug, in registry order.\<close>

fun get_post :: "post list \<Rightarrow> pystr \<Rightarrow> post option" where
  "get_post [] s = None"
| "get_post (p # ps) s = (if slug p = s then Some p else get_post ps s)"

section \<open>Advertisement units\<close>

text \<open>
  The three literal parts of the f-string of \<open>adsense_ad_unit\<close>, around the client and
  the slot identifier.
\<close>

definition ad_unit_open :: pystr where
  \<open>ad_unit_open =
     [10] @ py ''<div class="adbox">'' @ [10] @
     py ''  <div class="adlabel">ADVERTISEMENT</div>'' @ [10] @
     py ''  <ins class="adsbygoogle"'' @ [10] @ py ''       style="display:block"'' @ [10] @
     py ''       data-ad-client="''\<close>

definition ad_unit_middle :: pystr where
  \<open>ad_unit_middle =
     py ''"'' @ [10] @ py ''       data-ad-slot="''\<close>

definition ad_unit_close :: pystr where
  \<open>ad_unit_close =
     py ''"'' @ [10] @ py ''       data-ad-format="auto"'' @ [10] @
     py ''       data-full-width-responsive="true"></ins>'' @ [10] @
     py ''  <script>(adsbygoogle = window.adsbygoogle || '' @
     py ''[]).push({});</script>'' @ [10] @ py ''</div>'' @ [10]\<close>

definition adsense_ad_unit :: "config \<Rightarrow> pystr \<Rightarrow> pystr" where
  "adsense_ad_unit cfg slot =
     (if \<not> (ADSENSE_ENABLED cfg \<and> ADSENSE_CLIENT cfg \<noteq> [] \<and> slot \<noteq> []) then []
      else strip (ad_unit_open @ ADSENSE_CLIENT cfg @ ad_unit_middle @ slot @ ad_unit_close))"

section \<open>Library behaviour taken as a parameter\<close>

text \<open>
  What Werkzeug and Jinja2 compute is not part of the repository. The model takes it as a
  parameter: the quoting of a URL variable by \<open>url_for\<close>; the rendering of the constant
  template \<open>BLOG_POST_BODY\<close> for a post and three ad blocks; the rendering of a template
  that is only known at run time (with \<open>hero_bg_url\<close> as its one variable), which is
  \<open>None\<close> when Jinja2 raises; and the rendering of the layout \<open>BASE\<close> from the end of its
  first \<open>{{ meta_title }}\<close> on.
\<close>

record base_context =
  meta_title :: pystr
  meta_desc :: pystr
  canonical :: pystr
  include_pixels :: bool
  adsense_enabled :: bool
  adsense_client :: pystr
  adsense_slot_header :: pystr
  adsense_slot_inarticle :: pystr
  adsense_slot_sidebar :: pystr
  body :: pystr

record library =
  url_quote :: "pystr \<Rightarrow> pystr"
  render_blog_post_body :: "post \<Rightarrow> pystr \<Rightarrow> pystr \<Rightarrow> pystr \<Rightarrow> pystr"
  render_runtime_template :: "pystr \<Rightarrow> pystr option \<Rightarrow> pystr option"
  render_base_rest :: "base_context \<Rightarrow> pystr"

section \<open>URLs and the sitemap\<close>

definition site_url :: "config \<Rightarrow> pystr \<Rightarrow> pystr" where
  "site_url cfg p =
     (if CANONICAL_DOMAIN cfg \<noteq> [] then rstrip_chars (py ''/'') (CANONICAL_DOMAIN cfg) @ p
      else p)"

text \<open>\<open>url_for("blog_post", slug=s)\<close>.\<close>

definition url_for_blog_post :: "library \<Rightarrow> pystr \<Rightarrow> pystr" where
  "url_for_blog_post lib s = py ''/blog/'' @ url_quote lib s"

text \<open>
  The list \<open>pages\<close> that \<open>sitemap\<close> builds: location, change frequency and priority of
  every entry, the seven fixed entries first, then one entry for each post.
\<close>

type_synonym sitemap_entry = "pystr \<times> pystr \<times> pystr"

definition sitemap_pages :: "library \<Rightarrow> config \<Rightarrow> post list \<Rightarrow> sitemap_entry list" where
  "sitemap_pages lib cfg posts =
     [(site_url cfg (url_for EP_home), py ''weekly'', py ''1.0''),
      (site_url cfg (url_for EP_insights), py ''weekly'', py ''0.7''),
      (site_url cfg (url_for EP_blog), py ''weekly'', py ''0.7''),
      (site_url cfg (url_for EP_start), py ''monthly'', py ''0.7''),
      (site_url cfg (url_for EP_privacy), py ''yearly'', py ''0.2''),
      (site_url cfg (url_for EP_terms), py ''yearly'', py ''0.2''),
      (site_url cfg (url_for EP_thank_you), py ''yearly'', py ''0.1'')] @
     map (\<lambda>p. (site_url cfg (url_for_blog_post lib (slug p)), py ''monthly'', py ''0.6'')) posts"

fun url_element :: "sitemap_entry \<Rightarrow> pystr list" where
  "url_element (loc, changefreq, priority) =
     [py ''  <url>'',
      py ''    <loc>'' @ loc @ py ''</loc>'',
      py ''    <changefreq>'' @ changefreq @ py ''</changefreq>'',
      py ''    <priority>'' @ priority @ py ''</priority>'',
      py ''  </url>'']"

definition sitemap_lines :: "sitemap_entry list \<Rightarrow> pystr list" where
  \<open>sitemap_lines pages =
     [py ''<?xml version="1.0" encoding="UTF-8"?>'',
      py ''<urlset xmlns="http://www.sitemaps.org/schemas/sitemap/0.9">''] @
     concat (map url_element pages) @
     [py ''</urlset>'']\<close>

definition sitemap :: "library \<Rightarrow> config \<Rightarrow> post list \<Rightarrow> response" where
  "sitemap lib cfg posts =
     Content 200 ''application/xml'' (join [10] (sitemap_lines (sitemap_pages lib cfg posts)))"

text \<open>
  The value of a priority written with one decimal, in tenths; \<open>None\<close> for any other
  string. 46 is the full stop, 48 the digit zero.
\<close>

definition digit :: "nat \<Rightarrow> nat option" where
  "digit c = (if 48 \<le> c \<and> c \<le> 57 then Some (c - 48) else None)"

fun tenths :: "pystr \<Rightarrow> nat option" where
  "tenths [a, d, b] =
     (case (digit a, digit b) of
        (Some x, Some y) \<Rightarrow> if d = 46 then Some (10 * x + y) else None
      | _ \<Rightarrow> None)"
| "tenths _ = None"

section \<open>Rendering a blog post\<close>

definition APP_NAME :: pystr where
  "APP_NAME = py ''J Supreme Marketing''"

text \<open>\<open>markupsafe.escape\<close>, which Jinja2 applies to \<open>{{ meta_title }}\<close>.\<close>

fun escape_char :: "nat \<Rightarrow> pystr" where
  "escape_char c =
     (if c = 38 then py ''&amp;''
      else if c = 62 then py ''&gt;''
      else if c = 60 then py ''&lt;''
      else if c = 39 then py ''&#39;''
      else if c = 34 then py ''&#34;''
      else [c])"

definition html_escape :: "pystr \<Rightarrow> pystr" where
  "html_escape s = concat (map escape_char s)"

text \<open>The text of \<open>BASE\<close> up to its first \<open>{{ meta_title }}\<close>.\<close>

definition BASE_head :: pystr where
  \<open>BASE_head =
     [10] @ py ''<!doctype html>'' @ [10] @ py ''<html lang="en">'' @ [10] @ py ''<head>'' @
     [10] @ py ''  <meta charset="utf-8" />'' @ [10] @ py ''  <meta name="viewport" '' @
     py ''content="width=device-width,initial-scale=1" />'' @ [10] @ py ''  <title>''\<close>

text \<open>
  \<open>render_page\<close>: the body is rendered as a template of its own, then the layout around
  it. \<open>request.path\<close> is the argument \<open>request_path\<close>. The result is \<open>None\<close> when
  rendering the body raises.
\<close>

definition render_page ::
  "library \<Rightarrow> config \<Rightarrow> image_files \<Rightarrow> pystr \<Rightarrow> pystr \<Rightarrow> pystr \<Rightarrow> pystr \<Rightarrow> pystr \<Rightarrow> pystr option"
  where
  "render_page lib cfg ex request_path body_html page ttl desc =
     (case render_runtime_template lib body_html (bg_image_for ex page) of
        None \<Rightarrow> None
      | Some b \<Rightarrow>
          Some (BASE_head @ html_escape ttl @
            render_base_rest lib
              \<lparr> meta_title = ttl,
                meta_desc = desc,
                canonical = site_url cfg request_path,
                include_pixels = INCLUDE_PIXELS cfg,
                adsense_enabled = (ADSENSE_ENABLED cfg \<and> ADSENSE_CLIENT cfg \<noteq> []),
                adsense_client = ADSENSE_CLIENT cfg,
                adsense_slot_header = ADSENSE_SLOT_HEADER cfg,
                adsense_slot_inarticle = ADSENSE_SLOT_INARTICLE cfg,
                adsense_slot_sidebar = ADSENSE_SLOT_SIDEBAR cfg,
                body = b \<rparr>))"

text \<open>
  The first rendering in \<open>blog_post\<close>: \<open>BLOG_POST_BODY\<close> with the post and the three ad
  units.
\<close>

definition blog_post_body :: "library \<Rightarrow> config \<Rightarrow> post \<Rightarrow> pystr" where
  "blog_post_body lib cfg p =
     render_blog_post_body lib p
       (adsense_ad_unit cfg (ADSENSE_SLOT_HEADER cfg))
       (adsense_ad_unit cfg (ADSENSE_SLOT_INARTICLE cfg))
       (adsense_ad_unit cfg (ADSENSE_SLOT_SIDEBAR cfg))"

text \<open>
  \<open>GET /blog/<slug>\<close>. \<open>abort(404)\<close> is called without a message, so the message is
  empty.
\<close>

definition blog_post ::
  "library \<Rightarrow> config \<Rightarrow> image_files \<Rightarrow> post list \<Rightarrow> pystr \<Rightarrow> response" where
  "blog_post lib cfg ex posts s =
     (case get_post posts s of
        None \<Rightarrow> Abort 404 []
      | Some p \<Rightarrow>
          (case render_page lib cfg ex (py ''/blog/'' @ s) (blog_post_body lib cfg p)
                  (py ''blog'') (APP_NAME @ py '' | '' @ title p) (excerpt p) of
             None \<Rightarrow> Unhandled
           | Some page \<Rightarrow> Content 200 ''text/html'' page))"

section \<open>Notions used in the statements\<close>

text \<open>A form field that was not sent, or was sent empty.\<close>

definition missing_or_empty :: "request \<Rightarrow> string \<Rightarrow> bool" where
  "missing_or_empty req k \<longleftrightarrow> form req k = None \<or> form req k = Some []"

text \<open>A form field that was not sent, or holds nothing but whitespace.\<close>

definition blank :: "request \<Rightarrow> string \<Rightarrow> bool" where
  "blank req k \<longleftrightarrow> (case form req k of None \<Rightarrow> True | Some v \<Rightarrow> list_all isspace v)"

text \<open>
  The value expected in the record for a form field: the default \<open>d\<close> when the field was
  not sent or was sent empty, else what was sent without its leading and trailing
  whitespace.
\<close>

definition submitted :: "request \<Rightarrow> string \<Rightarrow> pystr \<Rightarrow> pystr" where
  "submitted req k d =
     (case form req k of None \<Rightarrow> d | Some v \<Rightarrow> if v = [] then d else strip v)"

definition stored_lead_row :: "pystr \<Rightarrow> request \<Rightarrow> row" where
  "stored_lead_row now req =
     [now,
      submitted req ''name'' [],
      submitted req ''email'' [],
      submitted req ''company'' [],
      submitted req ''website'' [],
      submitted req ''budget'' [],
      submitted req ''goal'' [],
      submitted req ''message'' [],
      submitted req ''source'' (py ''website_form''),
      csv_field (client_ip req),
      csv_field (user_agent req)]"

definition stored_subscriber_row :: "pystr \<Rightarrow> request \<Rightarrow> row" where
  "stored_subscriber_row now req =
     [now,
      submitted req ''email'' [],
      submitted req ''source'' (py ''newsletter''),
      csv_field (client_ip req),
      csv_field (user_agent req)]"

text \<open>
  The newsletter address is missing, empty, or has no \<open>@\<close> (code point 64).
\<close>

definition email_invalid :: "request \<Rightarrow> bool" where
  "email_invalid req \<longleftrightarrow>
     (case form req ''email'' of None \<Rightarrow> True | Some e \<Rightarrow> e = [] \<or> 64 \<notin> set e)"

text \<open>A string with no whitespace at either end.\<close>

definition trimmed :: "pystr \<Rightarrow> bool" where
  "trimmed v \<longleftrightarrow> v = [] \<or> (\<not> isspace (hd v) \<and> \<not> isspace (last v))"

text \<open>The text of a file that holds the given rows, each as \<open>csv.writer\<close> writes it.\<close>

definition csv_text :: "csv_writer \<Rightarrow> row list \<Rightarrow> pystr" where
  "csv_text enc rows = concat (map enc rows)"

text \<open>
  The file system after one row has been appended to the record file at \<open>p\<close>: the file
  now holds what it held before (the header row \<open>h\<close> alone, when it did not exist),
  followed by the row.
\<close>

definition appended :: "csv_writer \<Rightarrow> filesystem \<Rightarrow> path \<Rightarrow> row \<Rightarrow> row \<Rightarrow> filesystem" where
  "appended enc fs p h r =
     write_file fs p ((case files fs p of None \<Rightarrow> enc h | Some t \<Rightarrow> t) @ enc r)"

text \<open>An operation of the store that raised.\<close>

fun raised :: "outcome \<Rightarrow> bool" where
  "raised (Raised fs) = True"
| "raised (Returned fs) = False"

text \<open>The row that an append of kind \<open>k\<close> leaves in the file.\<close>

definition written_row :: "kind \<Rightarrow> pystr \<times> (string \<rightharpoonup> pyval) \<Rightarrow> row" where
  "written_row k x = map csv_field (kind_row k x)"

text \<open>
  The complete ad block for a client and a slot: the text of the f-string without the
  line feed at its start and at its end.
\<close>

definition ad_block :: "pystr \<Rightarrow> pystr \<Rightarrow> pystr" where
  "ad_block client slot =
     tl ad_unit_open @ client @ ad_unit_middle @ slot @ butlast ad_unit_close"

section \<open>Concrete inputs\<close>

text \<open>
  The configuration of an empty environment, a stand-in for the library parameters, and
  a few requests and file systems at which the theorems are instantiated.
\<close>

definition default_config :: config where
  "default_config = load_config Map.empty"

definition ads_config :: config where
  "ads_config =
     load_config [''ADSENSE_ENABLED'' \<mapsto> py ''1'', ''ADSENSE_CLIENT'' \<mapsto> py ''ca-pub-1'']"

definition plain_library :: library where
  "plain_library =
     \<lparr> url_quote = (\<lambda>s. s),
       render_blog_post_body = (\<lambda>p a b c. title p @ html p),
       render_runtime_template = (\<lambda>t bg. Some t),
       render_base_rest = (\<lambda>ctx. py ''</title>'' @ body ctx) \<rparr>"

definition sample_time :: pystr where
  "sample_time = py ''2025-12-23T10:00:00+00:00''"

definition bob_request :: request where
  "bob_request =
     \<lparr> form = [''name'' \<mapsto> py '' Bob'', ''email'' \<mapsto> py ''bob@example.com'',
               ''message'' \<mapsto> py ''Hello''],
       headers = Map.empty,
       remote_addr = Some (py ''203.0.113.7'') \<rparr>"

definition ann_request :: request where
  "ann_request =
     \<lparr> form = [''name'' \<mapsto> py ''Ann'', ''email'' \<mapsto> py ''ann@example.com'',
               ''message'' \<mapsto> py ''Hi'', ''budget'' \<mapsto> py ''5k''],
       headers = [''User-Agent'' \<mapsto> py ''curl/8.0 ''],
       remote_addr = Some (py ''203.0.113.7'') \<rparr>"

definition no_email_request :: request where
  "no_email_request =
     \<lparr> form = [''name'' \<mapsto> py ''Bob'', ''message'' \<mapsto> py ''Hello''],
       headers = Map.empty,
       remote_addr = None \<rparr>"

definition blank_email_request :: request where
  "blank_email_request =
     \<lparr> form = [''name'' \<mapsto> py ''Bob'', ''email'' \<mapsto> py ''  '', ''message'' \<mapsto> py ''Hello''],
       headers = Map.empty,
       remote_addr = None \<rparr>"

definition subscribe_request :: request where
  "subscribe_request =
     \<lparr> form = [''email'' \<mapsto> py ''ann@example.com'', ''source'' \<mapsto> py ''newsletter_block''],
       headers = Map.empty,
       remote_addr = None \<rparr>"

text \<open>
  A stand-in for \<open>csv.writer\<close>: the cells joined by commas, then \<open>\r\n\<close>. It agrees with
  the \<open>csv\<close> module on cells without commas, quotes and line breaks.
\<close>

definition plain_csv :: csv_writer where
  "plain_csv r = join (py '','') r @ [13, 10]"

definition eve_row :: row where
  "eve_row =
     [py ''2025-12-22T09:00:00+00:00'', py ''Eve'', py ''eve@example.com'', [], [], [], [],
      py ''Hey'', py ''website_form'', py ''198.51.100.2'', py ''Mozilla'']"

definition empty_disk :: filesystem where
  "empty_disk = \<lparr> files = Map.empty, io = (\<lambda>p. Succeeds) \<rparr>"

definition one_lead_file :: filesystem where
  "one_lead_file =
     \<lparr> files = [py ''leads.csv'' \<mapsto> plain_csv lead_header @ plain_csv eve_row],
       io = (\<lambda>p. Succeeds) \<rparr>"

text \<open>A lead file that somebody else left behind, without a line terminator at its end.\<close>

definition junk_file :: filesystem where
  "junk_file = \<lparr> files = [py ''leads.csv'' \<mapsto> py ''junk''], io = (\<lambda>p. Succeeds) \<rparr>"

text \<open>No file, and no directory to create one in; and a disk with room for three code points.\<close>

definition no_directory :: filesystem where
  "no_directory = \<lparr> files = Map.empty, io = (\<lambda>p. Open_fails) \<rparr>"

definition full_disk :: filesystem where
  "full_disk = \<lparr> files = Map.empty, io = (\<lambda>p. Write_fails 3) \<rparr>"

definition only_images_dir :: image_files where
  "only_images_dir d f \<longleftrightarrow> d = IMAGES_DIR \<and> f = py ''home_bg_1920x1080.jpg''"

section \<open>Properties of \<open>strip\<close>\<close>

lemma mem_dropWhile: "x \<in> set xs \<Longrightarrow> \<not> P x \<Longrightarrow> x \<in> set (dropWhile P xs)"
  by (induction xs) auto

lemma mem_strip: "\<not> isspace x \<Longrightarrow> x \<in> set (strip s) \<longleftrightarrow> x \<in> set s"
  unfolding strip_def lstrip_def rstrip_def
  by (metis mem_dropWhile set_dropWhileD set_rev)

lemma last_dropWhile_keep: "dropWhile P xs \<noteq> [] \<Longrightarrow> last (dropWhile P xs) = last xs"
  by (induction xs) auto

lemma dropWhile_hd_keep: "xs \<noteq> [] \<Longrightarrow> \<not> P (hd xs) \<Longrightarrow> dropWhile P xs = xs"
  by (cases xs) auto

lemma rstrip_Nil_iff: "rstrip s = [] \<longleftrightarrow> (\<forall>c\<in>set s. isspace c)"
  by (simp add: rstrip_def dropWhile_eq_Nil_conv)

lemma rstrip_last: "rstrip s \<noteq> [] \<Longrightarrow> \<not> isspace (last (rstrip s))"
  unfolding rstrip_def by (simp add: last_rev hd_dropWhile)

lemma strip_Nil_iff: "strip s = [] \<longleftrightarrow> (\<forall>c\<in>set s. isspace c)"
proof
  assume e: "strip s = []"
  have "rstrip s = []"
  proof (rule ccontr)
    assume ne: "rstrip s \<noteq> []"
    then have "last (rstrip s) \<in> set (rstrip s)" by simp
    moreover from e have "\<forall>c\<in>set (rstrip s). isspace c"
      by (simp add: strip_def lstrip_def dropWhile_eq_Nil_conv)
    ultimately show False using rstrip_last [OF ne] by blast
  qed
  then show "\<forall>c\<in>set s. isspace c" by (simp add: rstrip_Nil_iff)
next
  assume "\<forall>c\<in>set s. isspace c"
  then have "rstrip s = []" by (simp add: rstrip_Nil_iff)
  then show "strip s = []" by (simp add: strip_def lstrip_def)
qed

lemma strip_edges:
  assumes ne: "strip s \<noteq> []"
  shows "\<not> isspace (hd (strip s)) \<and> \<not> isspace (last (strip s))"
proof -
  have r_ne: "rstrip s \<noteq> []" using ne by (auto simp: strip_def lstrip_def)
  have "\<not> isspace (hd (strip s))"
    using ne unfolding strip_def lstrip_def by (rule hd_dropWhile)
  moreover have "last (strip s) = last (rstrip s)"
    using ne unfolding strip_def lstrip_def by (rule last_dropWhile_keep)
  ultimately show ?thesis using rstrip_last [OF r_ne] by simp
qed

lemma strip_fixed:
  assumes "trimmed s"
  shows "strip s = s"
proof (cases "s = []")
  case True
  then show ?thesis by (simp add: strip_def lstrip_def rstrip_def)
next
  case False
  with assms have h: "\<not> isspace (hd s)" and l: "\<not> isspace (last s)"
    by (auto simp: trimmed_def)
  from False l have "dropWhile isspace (rev s) = rev s"
    by (intro dropWhile_hd_keep) (simp_all add: hd_rev)
  then have "rstrip s = s" by (simp add: rstrip_def)
  moreover from False h have "dropWhile isspace s = s" by (rule dropWhile_hd_keep)
  ultimately show ?thesis by (simp add: strip_def lstrip_def)
qed

lemma trimmed_strip: "trimmed (strip s)"
  using strip_edges [of s] by (auto simp: trimmed_def)

lemma strip_Nil: "strip [] = []"
  by (simp add: strip_def lstrip_def rstrip_def)

lemma strip_website_form: "strip (py ''website_form'') = py ''website_form''"
  by (rule strip_fixed) (simp add: trimmed_def py_def isspace_def)

lemma strip_newsletter: "strip (py ''newsletter'') = py ''newsletter''"
  by (rule strip_fixed) (simp add: trimmed_def py_def isspace_def)

section \<open>Form fields\<close>

lemma form_value_submitted: "strip d = d \<Longrightarrow> form_value req k d = submitted req k d"
  by (simp add: form_value_def submitted_def py_or_def split: option.splits)

lemmas form_value_simps =
  form_value_submitted [OF strip_Nil]
  form_value_submitted [OF strip_website_form]
  form_value_submitted [OF strip_newsletter]

lemma trimmed_submitted: "trimmed d \<Longrightarrow> trimmed (submitted req k d)"
  by (simp add: submitted_def trimmed_strip split: option.splits)

lemma trimmed_Nil: "trimmed []"
  by (simp add: trimmed_def)

lemma trimmed_website_form: "trimmed (py ''website_form'')"
  by (simp add: trimmed_def py_def isspace_def)

lemma trimmed_newsletter: "trimmed (py ''newsletter'')"
  by (simp add: trimmed_def py_def isspace_def)

lemma submitted_Nil_iff: "submitted req k [] = [] \<longleftrightarrow> blank req k"
  by (simp add: submitted_def blank_def strip_Nil_iff list_all_iff split: option.splits)

lemma missing_imp_blank: "missing_or_empty req k \<Longrightarrow> blank req k"
  by (auto simp: missing_or_empty_def blank_def)

lemma at_in_submitted: "64 \<in> set (submitted req ''email'' []) \<longleftrightarrow> \<not> email_invalid req"
proof -
  have ns: "\<not> isspace 64" by (simp add: isspace_def)
  show ?thesis
    by (cases "form req ''email''") (auto simp: submitted_def email_invalid_def mem_strip [OF ns])
qed

section \<open>The record store\<close>

lemma header_cells: "map (csv_field \<circ> Str) h = h"
  by (induction h) simp_all

lemma files_write_file: "files (write_file fs p t) = (files fs)(p \<mapsto> t)"
  by (simp add: write_file_def)

lemma io_write_file: "io (write_file fs p t) = io fs"
  by (simp add: write_file_def)

lemma write_file_twice: "write_file (write_file fs p t) p u = write_file fs p u"
  by (simp add: write_file_def)

lemma write_file_same: "files fs p = Some t \<Longrightarrow> write_file fs p t = fs"
  by (simp add: write_file_def fun_upd_idem)

lemma csv_text_append: "csv_text enc (xs @ ys) = csv_text enc xs @ csv_text enc ys"
  by (simp add: csv_text_def)

lemma csv_text_Cons: "csv_text enc (x # xs) = enc x @ csv_text enc xs"
  by (simp add: csv_text_def)

lemma open_and_write_ok:
  "io fs p = Succeeds \<Longrightarrow>
   open_and_write enc fs p t r = Returned (write_file fs p (t @ enc (map csv_field r)))"
  by (simp add: open_and_write_def writerow_def)

lemma open_and_write_raises: "io fs p \<noteq> Succeeds \<Longrightarrow> raised (open_and_write enc fs p t r)"
  by (cases "io fs p") (simp_all add: open_and_write_def)

lemma ensure_csv_header_new:
  "files fs p = None \<Longrightarrow> io fs p = Succeeds \<Longrightarrow>
   ensure_csv_header enc fs p h = Returned (write_file fs p (enc h))"
  by (simp add: ensure_csv_header_def open_and_write_ok header_cells)

lemma ensure_csv_header_old: "files fs p = Some t \<Longrightarrow> ensure_csv_header enc fs p h = Returned fs"
  by (simp add: ensure_csv_header_def)

lemma save_row_ok:
  "io fs p = Succeeds \<Longrightarrow>
   save_row enc fs p h r = Returned (appended enc fs p h (map csv_field r))"
  by (cases "files fs p")
    (simp_all add: save_row_def ensure_csv_header_new ensure_csv_header_old open_and_write_ok
      appended_def files_write_file io_write_file write_file_twice)

lemma save_row_raises: "io fs p \<noteq> Succeeds \<Longrightarrow> raised (save_row enc fs p h r)"
proof (cases "files fs p")
  case None
  assume "io fs p \<noteq> Succeeds"
  then have "raised (open_and_write enc fs p [] (map Str h))" by (rule open_and_write_raises)
  with None show ?thesis
    by (cases "open_and_write enc fs p [] (map Str h)")
      (simp_all add: save_row_def ensure_csv_header_def)
next
  case (Some t)
  assume "io fs p \<noteq> Succeeds"
  with Some show ?thesis
    by (simp add: save_row_def ensure_csv_header_old open_and_write_raises)
qed

lemma appended_new:
  "files fs p = None \<Longrightarrow> appended enc fs p h r = write_file fs p (enc h @ enc r)"
  by (simp add: appended_def)

lemma appended_old:
  "files fs p = Some t \<Longrightarrow> appended enc fs p h r = write_file fs p (t @ enc r)"
  by (simp add: appended_def)

lemma append_record_eq:
  "append_record enc cfg k x fs =
     save_row enc fs (kind_path cfg k) (kind_header k) (kind_row k x)"
  by (cases k; cases x) (simp_all add: save_lead_def save_subscriber_def)

lemma length_written_row: "length (written_row k x) = length (kind_header k)"
  by (cases k; cases x)
    (simp_all add: written_row_def lead_row_def subscriber_row_def lead_header_def
      subscriber_header_def)

lemma append_all_existing:
  "files fs (kind_path cfg k) = Some t \<Longrightarrow> io fs (kind_path cfg k) = Succeeds \<Longrightarrow>
   append_all enc cfg k xs fs =
     Returned (write_file fs (kind_path cfg k) (t @ csv_text enc (map (written_row k) xs)))"
proof (induction xs arbitrary: fs t)
  case Nil
  then show ?case by (simp add: csv_text_def write_file_same)
next
  case (Cons x xs)
  let ?p = "kind_path cfg k"
  let ?fs1 = "write_file fs ?p (t @ enc (written_row k x))"
  have step: "append_record enc cfg k x fs = Returned ?fs1"
    using Cons.prems by (simp add: append_record_eq save_row_ok appended_old written_row_def)
  have "append_all enc cfg k xs ?fs1 =
      Returned (write_file ?fs1 ?p
        ((t @ enc (written_row k x)) @ csv_text enc (map (written_row k) xs)))"
    using Cons.prems by (intro Cons.IH) (simp_all add: files_write_file io_write_file)
  with step show ?case by (simp add: write_file_twice csv_text_Cons)
qed

lemma append_all_fresh:
  assumes "files fs (kind_path cfg k) = None" and "io fs (kind_path cfg k) = Succeeds"
    and "xs \<noteq> []"
  shows "append_all enc cfg k xs fs =
     Returned (write_file fs (kind_path cfg k)
       (csv_text enc (kind_header k # map (written_row k) xs)))"
proof -
  let ?p = "kind_path cfg k"
  from assms(3) obtain y ys where xs: "xs = y # ys" by (cases xs) auto
  let ?fs1 = "write_file fs ?p (enc (kind_header k) @ enc (written_row k y))"
  have step: "append_record enc cfg k y fs = Returned ?fs1"
    using assms(1,2) by (simp add: append_record_eq save_row_ok appended_new written_row_def)
  have "append_all enc cfg k ys ?fs1 =
      Returned (write_file ?fs1 ?p
        ((enc (kind_header k) @ enc (written_row k y)) @ csv_text enc (map (written_row k) ys)))"
    using assms(2) by (intro append_all_existing) (simp_all add: files_write_file io_write_file)
  with step show ?thesis by (simp add: xs write_file_twice csv_text_Cons)
qed

lemma append_all_fails:
  assumes "io fs (kind_path cfg k) \<noteq> Succeeds" and "xs \<noteq> []"
  shows "raised (append_all enc cfg k xs fs)"
proof -
  from assms(2) obtain y ys where xs: "xs = y # ys" by (cases xs) auto
  have "raised (append_record enc cfg k y fs)"
    using assms(1) by (simp add: append_record_eq save_row_raises)
  then show ?thesis
    by (cases "append_record enc cfg k y fs") (simp_all add: xs)
qed

section \<open>The submission handlers\<close>

lemma payload_lead_row:
  "map csv_field (lead_row now (map_of
     [(''name'', Str a), (''email'', Str b), (''company'', Str c), (''website'', Str d),
      (''budget'', Str e), (''goal'', Str f), (''message'', Str g), (''source'', Str h),
      (''ip'', i), (''user_agent'', j)])) =
   [now, a, b, c, d, e, f, g, h, csv_field i, csv_field j]"
  by (simp add: lead_row_def dict_get_def)

lemma payload_subscriber_row:
  "map csv_field (subscriber_row now (map_of
     [(''email'', Str b), (''source'', Str h), (''ip'', i), (''user_agent'', j)])) =
   [now, b, h, csv_field i, csv_field j]"
  by (simp add: subscriber_row_def dict_get_def)

lemma lead_rejects:
  "submitted req ''name'' [] = [] \<or> submitted req ''email'' [] = [] \<or>
   submitted req ''message'' [] = [] \<Longrightarrow>
   lead enc cfg now req fs = (Abort 400 (py ''Missing required fields.''), fs)"
  unfolding lead_def Let_def form_value_simps by auto

lemma raised_Unhandled:
  "raised out \<Longrightarrow>
   fst (case out of Raised fs' \<Rightarrow> (Unhandled, fs') | Returned fs' \<Rightarrow> (r, fs')) = Unhandled"
  by (cases out) simp_all

lemma lead_accepts:
  assumes "submitted req ''name'' [] \<noteq> []" "submitted req ''email'' [] \<noteq> []"
    "submitted req ''message'' [] \<noteq> []" and "io fs (LEADS_CSV cfg) = Succeeds"
  shows "lead enc cfg now req fs =
     (Redirect 302 (py ''/thank-you''),
      appended enc fs (LEADS_CSV cfg) lead_header (stored_lead_row now req))"
  unfolding lead_def Let_def save_lead_def save_row_ok [OF assms(4)] payload_lead_row
    form_value_simps stored_lead_row_def url_for_def
  using assms(1-3) by simp

lemma lead_fails:
  assumes "submitted req ''name'' [] \<noteq> []" "submitted req ''email'' [] \<noteq> []"
    "submitted req ''message'' [] \<noteq> []" and "io fs (LEADS_CSV cfg) \<noteq> Succeeds"
  shows "fst (lead enc cfg now req fs) = Unhandled"
  unfolding lead_def Let_def save_lead_def form_value_simps
  using assms(1-3) by (simp add: raised_Unhandled save_row_raises [OF assms(4)])

lemma newsletter_rejects:
  "email_invalid req \<Longrightarrow>
   newsletter_subscribe enc cfg now req fs = (Abort 400 (py ''Enter a valid email.''), fs)"
  unfolding newsletter_subscribe_def Let_def form_value_simps
  using at_in_submitted [of req] by auto

lemma newsletter_accepts:
  assumes "\<not> email_invalid req" and "io fs (NEWSLETTER_CSV cfg) = Succeeds"
  shows "newsletter_subscribe enc cfg now req fs =
     (Redirect 302 (py ''/newsletter/thanks''),
      appended enc fs (NEWSLETTER_CSV cfg) subscriber_header (stored_subscriber_row now req))"
proof -
  from assms(1) have at: "64 \<in> set (submitted req ''email'' [])"
    by (simp add: at_in_submitted)
  then have "submitted req ''email'' [] \<noteq> []" by auto
  with at show ?thesis
    unfolding newsletter_subscribe_def Let_def save_subscriber_def save_row_ok [OF assms(2)]
      payload_subscriber_row form_value_simps stored_subscriber_row_def url_for_def
    by simp
qed

lemma newsletter_fails:
  assumes "\<not> email_invalid req" and "io fs (NEWSLETTER_CSV cfg) \<noteq> Succeeds"
  shows "fst (newsletter_subscribe enc cfg now req fs) = Unhandled"
proof -
  from assms(1) have at: "64 \<in> set (submitted req ''email'' [])"
    by (simp add: at_in_submitted)
  then have "submitted req ''email'' [] \<noteq> []" by auto
  with at show ?thesis
    unfolding newsletter_subscribe_def Let_def save_subscriber_def form_value_simps
    by (simp add: raised_Unhandled save_row_raises [OF assms(2)])
qed

section \<open>The ad block\<close>

lemma strip_wrapped:
  assumes "X \<noteq> []" "\<not> isspace (hd X)" "\<not> isspace (last X)" "isspace a" "isspace b"
  shows "strip (a # X @ [b]) = X"
proof -
  have "dropWhile isspace (rev X @ [a]) = rev X @ [a]"
    using assms(1,3) by (intro dropWhile_hd_keep) (simp_all add: hd_append hd_rev)
  then have "rstrip (a # X @ [b]) = a # X"
    using assms(5) by (simp add: rstrip_def)
  moreover have "dropWhile isspace X = X"
    using assms(1,2) by (rule dropWhile_hd_keep)
  ultimately show ?thesis using assms(4) by (simp add: strip_def lstrip_def)
qed

lemma ad_unit_open_shape:
  "ad_unit_open = 10 # tl ad_unit_open" "tl ad_unit_open \<noteq> []" "hd (tl ad_unit_open) = 60"
  by (simp_all add: ad_unit_open_def py_def)

lemma ad_unit_close_shape:
  "ad_unit_close = butlast ad_unit_close @ [10]" "butlast ad_unit_close \<noteq> []"
  "last (butlast ad_unit_close) = 62"
  by (simp_all add: ad_unit_close_def py_def)

lemma ad_block_edges: "ad_block c s \<noteq> []" "hd (ad_block c s) = 60" "last (ad_block c s) = 62"
  using ad_unit_open_shape(2,3) ad_unit_close_shape(2,3)
  by (simp_all add: ad_block_def hd_append)

lemma strip_ad_unit:
  "strip (ad_unit_open @ c @ ad_unit_middle @ s @ ad_unit_close) = ad_block c s"
proof -
  have "ad_unit_open @ c @ ad_unit_middle @ s @ ad_unit_close =
      10 # ad_block c s @ [10]"
    using ad_unit_open_shape(1) ad_unit_close_shape(1)
    by (metis ad_block_def append_Cons append_assoc)
  moreover have "strip (10 # ad_block c s @ [10]) = ad_block c s"
    by (rule strip_wrapped) (simp_all add: ad_block_edges isspace_def)
  ultimately show ?thesis by simp
qed

section \<open>Evaluation at concrete inputs\<close>

lemmas string_eval = py_def strip_def lstrip_def rstrip_def isspace_def py_or_def
lemmas config_eval = default_config_def ads_config_def load_config_def getenv_def
lemmas row_eval = stored_lead_row_def stored_subscriber_row_def submitted_def client_ip_def
  user_agent_def
lemmas disk_eval = empty_disk_def one_lead_file_def junk_file_def no_directory_def
  full_disk_def appended_def write_file_def

section \<open>Background images\<close>

lemma find_bg_file_None: "find_bg_file ex f = None \<longleftrightarrow> \<not> ex STATIC_IMG_DIR f \<and> \<not> ex IMAGES_DIR f"
  by (simp add: find_bg_file_def)

lemma bg_mapping_nonempty: "map_of bg_mapping page = Some f \<Longrightarrow> f \<noteq> []"
  by (auto simp: bg_mapping_def py_def split: if_splits)

section \<open>The sitemap and the registry\<close>

lemma static_page_routes_eq:
  "static_page_routes =
     [EP_home, EP_insights, EP_blog, EP_start, EP_thank_you, EP_newsletter_thanks, EP_privacy,
      EP_terms]"
  by (simp add: static_page_routes_def endpoints_def)

lemma url_lines_count:
  "length (filter (\<lambda>l. l = py ''  <url>'') (concat (map url_element pages))) = length pages"
proof (induction pages)
  case Nil
  then show ?case by simp
next
  case (Cons e pages)
  obtain loc cf pr where e: "e = (loc, cf, pr)" by (cases e) auto
  have "filter (\<lambda>l. l = py ''  <url>'') (url_element e) = [py ''  <url>'']"
    by (simp add: e py_def)
  with Cons.IH show ?case by simp
qed

lemma sitemap_url_count:
  "length (filter (\<lambda>l. l = py ''  <url>'') (sitemap_lines pages)) = length pages"
proof -
  have "filter (\<lambda>l. l = py ''  <url>'') (sitemap_lines pages) =
      filter (\<lambda>l. l = py ''  <url>'') (concat (map url_element pages))"
    by (simp add: sitemap_lines_def py_def)
  then show ?thesis by (simp add: url_lines_count)
qed

lemma post_slugs:
  "slug post1 = py ''positioning-before-promotion''"
  "slug post2 = py ''the-signal-audit-framework''"
  by (simp_all add: post1_def post2_def)

lemma post_titles:
  "title post1 = py ''Positioning Before Promotion''"
  "title post2 = py ''The Signal Audit Framework''"
  by (simp_all add: post1_def post2_def)

lemma default_domain: "CANONICAL_DOMAIN default_config = []"
  by (simp add: config_eval strip_Nil)

lemma get_post_None: "get_post posts s = None \<longleftrightarrow> s \<notin> slug ` set posts"
  by (induction posts) auto

lemma get_post_Some: "get_post posts s = Some p \<Longrightarrow> p \<in> set posts \<and> slug p = s"
  by (induction posts) (auto split: if_splits)

lemma html_escape_append: "html_escape (a @ b) = html_escape a @ html_escape b"
  by (simp add: html_escape_def)

lemma configured_post:
  assumes "p \<in> set BLOG_POSTS"
  shows "get_post BLOG_POSTS (slug p) = Some p" and "html_escape (title p) = title p"
proof -
  from assms have p: "p = post1 \<or> p = post2" by (simp add: BLOG_POSTS_def)
  have "slug post1 \<noteq> slug post2" by (simp add: post_slugs py_def)
  with p show "get_post BLOG_POSTS (slug p) = Some p"
    by (auto simp: BLOG_POSTS_def)
  from p show "html_escape (title p) = title p"
    by (auto simp: post_titles html_escape_def py_def)
qed

lemma render_page_Some:
  "render_runtime_template lib b (bg_image_for ex page) = Some b' \<Longrightarrow>
   \<exists>rest. render_page lib cfg ex path b page t d = Some (BASE_head @ html_escape t @ rest)"
  by (simp add: render_page_def)

lemma blog_post_unknown: "s \<notin> slug ` set posts \<Longrightarrow> blog_post lib cfg ex posts s = Abort 404 []"
  by (simp add: blog_post_def get_post_None [symmetric])

lemma blog_post_known:
  assumes "get_post posts s = Some p"
    and "render_runtime_template lib (blog_post_body lib cfg p) (bg_image_for ex (py ''blog'')) = Some b"
  shows "\<exists>page. blog_post lib cfg ex posts s = Content 200 ''text/html'' page \<and>
     sublist (html_escape (title p)) page"
proof -
  from render_page_Some [OF assms(2)] obtain rest where
    "render_page lib cfg ex (py ''/blog/'' @ s) (blog_post_body lib cfg p) (py ''blog'')
       (APP_NAME @ py '' | '' @ title p) (excerpt p) =
     Some (BASE_head @ html_escape (APP_NAME @ py '' | '' @ title p) @ rest)"
    by blast
  then have "blog_post lib cfg ex posts s =
      Content 200 ''text/html''
        ((BASE_head @ html_escape (APP_NAME @ py '' | '')) @ html_escape (title p) @ rest)"
    using assms(1) by (simp add: blog_post_def html_escape_append)
  then show ?thesis unfolding sublist_def by blast
qed

section \<open>Lead submissions\<close>

text \<open>
  C1, as stated, fails at \<open>bob_request\<close>, on a disk where the write succeeds: the name was
  sent as \<open>" Bob"\<close> and is stored as \<open>"Bob"\<close>, and the source field, which was not sent, is
  stored as \<open>"website_form"\<close>, not as the empty string.
\<close>

theorem lead_verbatim_counterexample:
  "form bob_request ''name'' = Some (py '' Bob'') \<and>
   form bob_request ''source'' = None \<and>
   lead plain_csv default_config sample_time bob_request empty_disk =
     (Redirect 302 (py ''/thank-you''),
      \<lparr> files =
          [py ''leads.csv'' \<mapsto>
             plain_csv lead_header @
             plain_csv
               [sample_time, py ''Bob'', py ''bob@example.com'', [], [], [], [], py ''Hello'',
                py ''website_form'', py ''203.0.113.7'', []]],
        io = (\<lambda>p. Succeeds) \<rparr>) \<and>
   py ''Bob'' \<noteq> py '' Bob'' \<and> py ''website_form'' \<noteq> []"
proof -
  have "submitted bob_request ''name'' [] \<noteq> []" "submitted bob_request ''email'' [] \<noteq> []"
    "submitted bob_request ''message'' [] \<noteq> []"
    by (simp_all add: bob_request_def submitted_def string_eval)
  from lead_accepts [OF this, of empty_disk default_config plain_csv sample_time] show ?thesis
    by (simp add: bob_request_def config_eval row_eval disk_eval string_eval)
qed

text \<open>
  C1, amended. For every \<open>POST /api/lead\<close> request whose name, email and message are
  non-empty after their leading and trailing whitespace is removed: when the write to the
  lead file succeeds, the handler answers with a 302 redirect to \<open>/thank-you\<close> and
  appends exactly one row to the lead file, behind what the file held (behind the header
  row, when the file did not exist). The row holds the time stamp, then each submitted
  form value without its leading and trailing whitespace, with the empty string for a
  company, website, budget or goal that was omitted or sent empty and \<open>"website_form"\<close>
  for a source that was omitted or sent empty, then the client address and the user
  agent. When the write to the lead file fails, the handler answers with status 500.
\<close>

theorem lead_appends_stripped_row:
  assumes "submitted req ''name'' [] \<noteq> []" and "submitted req ''email'' [] \<noteq> []"
    and "submitted req ''message'' [] \<noteq> []"
  shows "(io fs (LEADS_CSV cfg) = Succeeds \<longrightarrow>
      lead enc cfg now req fs =
        (Redirect 302 (py ''/thank-you''),
         fs\<lparr>files := (files fs)(LEADS_CSV cfg \<mapsto>
              (case files fs (LEADS_CSV cfg) of None \<Rightarrow> enc lead_header | Some t \<Rightarrow> t) @
              enc (stored_lead_row now req))\<rparr>)) \<and>
    (io fs (LEADS_CSV cfg) \<noteq> Succeeds \<longrightarrow>
      status (fst (lead enc cfg now req fs)) = 500)"
  using lead_accepts [OF assms, of fs cfg enc now] lead_fails [OF assms, of fs cfg enc now]
  by (simp add: appended_def write_file_def)

text \<open>
  The amended C1 at \<open>ann_request\<close>, on a lead file that already holds one record, on a
  disk without the directory of the lead file, and on a full disk.
\<close>

theorem lead_appends_stripped_row_witness:
  "submitted ann_request ''name'' [] \<noteq> [] \<and> submitted ann_request ''email'' [] \<noteq> [] \<and>
   submitted ann_request ''message'' [] \<noteq> [] \<and>
   lead plain_csv default_config sample_time ann_request one_lead_file =
     (Redirect 302 (py ''/thank-you''),
      \<lparr> files =
          [py ''leads.csv'' \<mapsto>
             plain_csv lead_header @ plain_csv eve_row @
             plain_csv
               [sample_time, py ''Ann'', py ''ann@example.com'', [], [], py ''5k'', [], py ''Hi'',
                py ''website_form'', py ''203.0.113.7'', py ''curl/8.0 '']],
        io = (\<lambda>p. Succeeds) \<rparr>) \<and>
   status (fst (lead plain_csv default_config sample_time ann_request no_directory)) = 500 \<and>
   status (fst (lead plain_csv default_config sample_time ann_request full_disk)) = 500"
proof -
  have h: "submitted ann_request ''name'' [] \<noteq> []" "submitted ann_request ''email'' [] \<noteq> []"
    "submitted ann_request ''message'' [] \<noteq> []"
    by (simp_all add: ann_request_def submitted_def string_eval)
  from h lead_appends_stripped_row [OF h, of one_lead_file default_config plain_csv sample_time]
    lead_appends_stripped_row [OF h, of no_directory default_config plain_csv sample_time]
    lead_appends_stripped_row [OF h, of full_disk default_config plain_csv sample_time]
  show ?thesis
    by (simp add: ann_request_def config_eval row_eval disk_eval string_eval)
qed

text \<open>
  C2. For every \<open>POST /api/lead\<close> request in which at least one of name, email and
  message is missing or empty, the handler answers with status 400 and the file system,
  so the lead file with its rows, is left as it was.
\<close>

theorem lead_missing_field_rejected:
  assumes "missing_or_empty req ''name'' \<or> missing_or_empty req ''email'' \<or>
    missing_or_empty req ''message''"
  shows "lead enc cfg now req fs = (Abort 400 (py ''Missing required fields.''), fs)"
proof (rule lead_rejects)
  from assms have "blank req ''name'' \<or> blank req ''email'' \<or> blank req ''message''"
    by (auto dest: missing_imp_blank)
  then show "submitted req ''name'' [] = [] \<or> submitted req ''email'' [] = [] \<or>
      submitted req ''message'' [] = []"
    by (simp add: submitted_Nil_iff)
qed

text \<open>C2 at a request without an email field.\<close>

theorem lead_missing_field_rejected_witness:
  "missing_or_empty no_email_request ''email'' \<and>
   lead plain_csv default_config sample_time no_email_request one_lead_file =
     (Abort 400 (py ''Missing required fields.''), one_lead_file) \<and>
   status (fst (lead plain_csv default_config sample_time no_email_request one_lead_file)) = 400"
proof -
  have h: "missing_or_empty no_email_request ''email''"
    by (simp add: missing_or_empty_def no_email_request_def)
  then have "missing_or_empty no_email_request ''name'' \<or>
      missing_or_empty no_email_request ''email'' \<or> missing_or_empty no_email_request ''message''"
    by simp
  from h lead_missing_field_rejected [OF this, of plain_csv default_config sample_time
      one_lead_file]
  show ?thesis by simp
qed

section \<open>Newsletter subscriptions\<close>

text \<open>
  C3. For every \<open>POST /api/newsletter\<close> request: if the email field is missing, empty or
  without an \<open>@\<close>, the handler answers with status 400 and writes nothing; otherwise,
  when the write to the subscriber file succeeds, it appends exactly one subscriber row,
  behind what the file held (behind the header row, when the file did not exist), and
  answers with a 302 redirect to \<open>/newsletter/thanks\<close>. The one other outcome is that of
  a write that fails: status 500.
\<close>

theorem newsletter_subscribe_validates:
  "(email_invalid req \<longrightarrow>
      newsletter_subscribe enc cfg now req fs = (Abort 400 (py ''Enter a valid email.''), fs)) \<and>
   (\<not> email_invalid req \<and> io fs (NEWSLETTER_CSV cfg) = Succeeds \<longrightarrow>
      newsletter_subscribe enc cfg now req fs =
        (Redirect 302 (py ''/newsletter/thanks''),
         fs\<lparr>files := (files fs)(NEWSLETTER_CSV cfg \<mapsto>
              (case files fs (NEWSLETTER_CSV cfg) of
                 None \<Rightarrow> enc subscriber_header | Some t \<Rightarrow> t) @
              enc (stored_subscriber_row now req))\<rparr>)) \<and>
   (\<not> email_invalid req \<and> io fs (NEWSLETTER_CSV cfg) \<noteq> Succeeds \<longrightarrow>
      status (fst (newsletter_subscribe enc cfg now req fs)) = 500)"
  by (simp add: newsletter_rejects newsletter_accepts newsletter_fails appended_def
      write_file_def)

text \<open>
  C3 at an accepted address, at an address without an \<open>@\<close>, and at the accepted address
  on a disk without the directory of the subscriber file.
\<close>

theorem newsletter_subscribe_validates_witness:
  "newsletter_subscribe plain_csv default_config sample_time subscribe_request empty_disk =
     (Redirect 302 (py ''/newsletter/thanks''),
      \<lparr> files =
          [py ''newsletter.csv'' \<mapsto>
             plain_csv subscriber_header @
             plain_csv [sample_time, py ''ann@example.com'', py ''newsletter_block'', [], []]],
        io = (\<lambda>p. Succeeds) \<rparr>) \<and>
   newsletter_subscribe plain_csv default_config sample_time
       (subscribe_request\<lparr>form := [''email'' \<mapsto> py ''ann.example.com'']\<rparr>) empty_disk =
     (Abort 400 (py ''Enter a valid email.''), empty_disk) \<and>
   status (fst (newsletter_subscribe plain_csv default_config sample_time subscribe_request
     no_directory)) = 500"
  using newsletter_subscribe_validates [of subscribe_request plain_csv default_config
      sample_time empty_disk]
    newsletter_subscribe_validates [of
      "subscribe_request\<lparr>form := [''email'' \<mapsto> py ''ann.example.com'']\<rparr>" plain_csv
      default_config sample_time empty_disk]
    newsletter_subscribe_validates [of subscribe_request plain_csv default_config
      sample_time no_directory]
  by (simp add: subscribe_request_def email_invalid_def config_eval row_eval disk_eval
      string_eval)

section \<open>The header row of a record file\<close>

text \<open>
  C4. For every sequence of appends of one kind to a file at which writes succeed: when
  the file does not exist, the first append writes the header of the kind at the
  start of the file, and the file then holds the header row followed by one row for each
  append, in order; when the file exists, the text it holds stays where it is and each
  append adds one row behind it, so a file that starts with the header row keeps it as
  its first row and has one more row after every append; and every row written has as
  many cells as the header of its kind. Where writes fail, the first append of the
  sequence raises.
\<close>

theorem record_file_header_first:
  "(files fs (kind_path cfg k) = None \<and> io fs (kind_path cfg k) = Succeeds \<and> xs \<noteq> [] \<longrightarrow>
      append_all enc cfg k xs fs =
        Returned (fs\<lparr>files := (files fs)(kind_path cfg k \<mapsto>
          csv_text enc (kind_header k # map (written_row k) xs))\<rparr>)) \<and>
   (\<forall>t. files fs (kind_path cfg k) = Some t \<and> io fs (kind_path cfg k) = Succeeds \<longrightarrow>
      append_all enc cfg k xs fs =
        Returned (fs\<lparr>files := (files fs)(kind_path cfg k \<mapsto>
          t @ csv_text enc (map (written_row k) xs))\<rparr>)) \<and>
   (\<forall>rows. files fs (kind_path cfg k) = Some (csv_text enc (kind_header k # rows)) \<and>
        io fs (kind_path cfg k) = Succeeds \<longrightarrow>
      append_all enc cfg k xs fs =
        Returned (fs\<lparr>files := (files fs)(kind_path cfg k \<mapsto>
          csv_text enc (kind_header k # rows @ map (written_row k) xs))\<rparr>)) \<and>
   (io fs (kind_path cfg k) \<noteq> Succeeds \<and> xs \<noteq> [] \<longrightarrow> raised (append_all enc cfg k xs fs)) \<and>
   (\<forall>x. length (written_row k x) = length (kind_header k))"
proof (intro conjI impI allI)
  assume "files fs (kind_path cfg k) = None \<and> io fs (kind_path cfg k) = Succeeds \<and> xs \<noteq> []"
  then show "append_all enc cfg k xs fs =
      Returned (fs\<lparr>files := (files fs)(kind_path cfg k \<mapsto>
        csv_text enc (kind_header k # map (written_row k) xs))\<rparr>)"
    by (simp add: append_all_fresh write_file_def)
next
  fix t
  assume "files fs (kind_path cfg k) = Some t \<and> io fs (kind_path cfg k) = Succeeds"
  then show "append_all enc cfg k xs fs =
      Returned (fs\<lparr>files := (files fs)(kind_path cfg k \<mapsto>
        t @ csv_text enc (map (written_row k) xs))\<rparr>)"
    by (simp add: append_all_existing write_file_def)
next
  fix rows
  assume "files fs (kind_path cfg k) = Some (csv_text enc (kind_header k # rows)) \<and>
      io fs (kind_path cfg k) = Succeeds"
  then show "append_all enc cfg k xs fs =
      Returned (fs\<lparr>files := (files fs)(kind_path cfg k \<mapsto>
        csv_text enc (kind_header k # rows @ map (written_row k) xs))\<rparr>)"
    by (simp add: append_all_existing write_file_def csv_text_Cons csv_text_append)
next
  assume "io fs (kind_path cfg k) \<noteq> Succeeds \<and> xs \<noteq> []"
  then show "raised (append_all enc cfg k xs fs)" by (simp add: append_all_fails)
next
  fix x
  show "length (written_row k x) = length (kind_header k)" by (rule length_written_row)
qed

text \<open>
  C4 at two subscriber appends to a file that does not exist, at one lead append to a
  file that holds the header and one record, and at one lead append where the directory
  is missing.
\<close>

theorem record_file_header_first_witness:
  "append_all plain_csv default_config Subscriber
     [(py ''t1'', [''email'' \<mapsto> Str (py ''a@b'')]), (py ''t2'', [''email'' \<mapsto> Str (py ''c@d'')])]
     empty_disk =
   Returned \<lparr> files =
            [py ''newsletter.csv'' \<mapsto>
               csv_text plain_csv
                 [subscriber_header, [py ''t1'', py ''a@b'', [], [], []],
                  [py ''t2'', py ''c@d'', [], [], []]]],
          io = (\<lambda>p. Succeeds) \<rparr> \<and>
   append_all plain_csv default_config Lead [(py ''t3'', Map.empty)] one_lead_file =
   Returned \<lparr> files =
            [py ''leads.csv'' \<mapsto>
               csv_text plain_csv
                 [lead_header, eve_row, [py ''t3'', [], [], [], [], [], [], [], [], [], []]]],
          io = (\<lambda>p. Succeeds) \<rparr> \<and>
   raised (append_all plain_csv default_config Lead [(py ''t3'', Map.empty)] no_directory) \<and>
   length (written_row Lead (py ''t3'', Map.empty)) = length lead_header"
  using record_file_header_first [of empty_disk default_config Subscriber
      "[(py ''t1'', [''email'' \<mapsto> Str (py ''a@b'')]), (py ''t2'', [''email'' \<mapsto> Str (py ''c@d'')])]"
      plain_csv]
    record_file_header_first [of one_lead_file default_config Lead "[(py ''t3'', Map.empty)]"
      plain_csv]
    record_file_header_first [of no_directory default_config Lead "[(py ''t3'', Map.empty)]"
      plain_csv]
  by (simp add: disk_eval config_eval written_row_def subscriber_row_def lead_row_def
      dict_get_def csv_text_def)

text \<open>
  C9. Where writes at the path succeed, the header row is written if and only if nothing
  exists at the path when the row is appended. When a file exists there,
  whatever text it holds (none at all, a first line that is not the header, a last line
  without a line terminator), \<open>ensure_csv_header\<close> changes nothing and \<open>save_row\<close> writes
  the row directly behind that text; so the header is the first row only of the files
  that the store created. Where writes at the path fail, \<open>save_row\<close> raises.
\<close>

theorem header_only_for_new_file:
  "(files fs p = None \<and> io fs p = Succeeds \<longrightarrow>
      ensure_csv_header enc fs p h = Returned (fs\<lparr>files := (files fs)(p \<mapsto> enc h)\<rparr>) \<and>
      save_row enc fs p h r =
        Returned (fs\<lparr>files := (files fs)(p \<mapsto> enc h @ enc (map csv_field r))\<rparr>)) \<and>
   (\<forall>t. files fs p = Some t \<longrightarrow>
      ensure_csv_header enc fs p h = Returned fs \<and>
      (io fs p = Succeeds \<longrightarrow>
         save_row enc fs p h r =
           Returned (fs\<lparr>files := (files fs)(p \<mapsto> t @ enc (map csv_field r))\<rparr>))) \<and>
   (io fs p \<noteq> Succeeds \<longrightarrow> raised (save_row enc fs p h r))"
  by (auto simp: ensure_csv_header_new ensure_csv_header_old save_row_ok save_row_raises
      appended_def write_file_def)

text \<open>
  C9 at a file without a final line terminator, at an empty file, at a path where no
  file exists, and at a path that cannot be opened.
\<close>

theorem header_only_for_new_file_witness:
  "save_row plain_csv junk_file (py ''leads.csv'') subscriber_header [Str (py ''t''), PyNone] =
     Returned \<lparr> files = [py ''leads.csv'' \<mapsto> py ''junkt,'' @ [13, 10]],
            io = (\<lambda>p. Succeeds) \<rparr> \<and>
   save_row plain_csv (junk_file\<lparr>files := [py ''leads.csv'' \<mapsto> []]\<rparr>) (py ''leads.csv'')
       subscriber_header [Str (py ''t'')] =
     Returned \<lparr> files = [py ''leads.csv'' \<mapsto> py ''t'' @ [13, 10]], io = (\<lambda>p. Succeeds) \<rparr> \<and>
   save_row plain_csv empty_disk (py ''leads.csv'') subscriber_header [Str (py ''t'')] =
     Returned \<lparr> files =
              [py ''leads.csv'' \<mapsto>
                 py ''created_at_utc,email,source,ip,user_agent'' @ [13, 10] @ py ''t'' @
                 [13, 10]],
            io = (\<lambda>p. Succeeds) \<rparr> \<and>
   raised (save_row plain_csv no_directory (py ''leads.csv'') subscriber_header
     [Str (py ''t'')])"
  using header_only_for_new_file [of junk_file "py ''leads.csv''" plain_csv subscriber_header
      "[Str (py ''t''), PyNone]"]
    header_only_for_new_file [of "junk_file\<lparr>files := [py ''leads.csv'' \<mapsto> []]\<rparr>"
      "py ''leads.csv''" plain_csv subscriber_header "[Str (py ''t'')]"]
    header_only_for_new_file [of empty_disk "py ''leads.csv''" plain_csv subscriber_header
      "[Str (py ''t'')]"]
    header_only_for_new_file [of no_directory "py ''leads.csv''" plain_csv subscriber_header
      "[Str (py ''t'')]"]
  by (simp add: disk_eval plain_csv_def subscriber_header_def py_def)

section \<open>Whitespace in form fields\<close>

text \<open>
  C10. Both handlers remove leading and trailing whitespace from the form fields before
  they validate and store them: a lead whose name, email or message is missing or only
  whitespace gets status 400 and nothing is written, and so does a newsletter request
  whose email is missing or only whitespace; and whenever a handler accepts a request and
  stores it, the row it appends is the stored row of the request, in which every value
  that comes from a form field (cells 1 to 8 of the eleven of a lead row, cells 1 and 2
  of the five of a subscriber row) has no leading or trailing whitespace.
\<close>

theorem form_fields_stripped:
  "(blank req ''name'' \<or> blank req ''email'' \<or> blank req ''message'' \<longrightarrow>
      lead enc cfg now req fs = (Abort 400 (py ''Missing required fields.''), fs)) \<and>
   (blank req ''email'' \<longrightarrow>
      newsletter_subscribe enc cfg now req fs = (Abort 400 (py ''Enter a valid email.''), fs)) \<and>
   (\<forall>l fs'. lead enc cfg now req fs = (Redirect 302 l, fs') \<longrightarrow>
      fs' = appended enc fs (LEADS_CSV cfg) lead_header (stored_lead_row now req)) \<and>
   (\<forall>l fs'. newsletter_subscribe enc cfg now req fs = (Redirect 302 l, fs') \<longrightarrow>
      fs' = appended enc fs (NEWSLETTER_CSV cfg) subscriber_header
              (stored_subscriber_row now req)) \<and>
   length (stored_lead_row now req) = 11 \<and>
   list_all trimmed (take 8 (drop 1 (stored_lead_row now req))) \<and>
   length (stored_subscriber_row now req) = 5 \<and>
   list_all trimmed (take 2 (drop 1 (stored_subscriber_row now req)))"
proof (intro conjI impI allI)
  assume "blank req ''name'' \<or> blank req ''email'' \<or> blank req ''message''"
  then show "lead enc cfg now req fs = (Abort 400 (py ''Missing required fields.''), fs)"
    by (intro lead_rejects) (simp add: submitted_Nil_iff)
next
  assume "blank req ''email''"
  then have "submitted req ''email'' [] = []" by (simp add: submitted_Nil_iff)
  then have "email_invalid req" using at_in_submitted [of req] by auto
  then show "newsletter_subscribe enc cfg now req fs =
      (Abort 400 (py ''Enter a valid email.''), fs)"
    by (rule newsletter_rejects)
next
  fix l fs'
  assume ok: "lead enc cfg now req fs = (Redirect 302 l, fs')"
  have ne: "submitted req ''name'' [] \<noteq> []" "submitted req ''email'' [] \<noteq> []"
    "submitted req ''message'' [] \<noteq> []"
    using ok lead_rejects [of req enc cfg now fs] by auto
  have "io fs (LEADS_CSV cfg) = Succeeds"
    using ok lead_fails [OF ne, of fs cfg enc now] by auto
  from ok lead_accepts [OF ne this, of enc now]
  show "fs' = appended enc fs (LEADS_CSV cfg) lead_header (stored_lead_row now req)"
    by simp
next
  fix l fs'
  assume ok: "newsletter_subscribe enc cfg now req fs = (Redirect 302 l, fs')"
  have ne: "\<not> email_invalid req"
    using ok newsletter_rejects [of req enc cfg now fs] by auto
  have "io fs (NEWSLETTER_CSV cfg) = Succeeds"
    using ok newsletter_fails [OF ne, of fs cfg enc now] by auto
  from ok newsletter_accepts [OF ne this, of enc now]
  show "fs' = appended enc fs (NEWSLETTER_CSV cfg) subscriber_header
      (stored_subscriber_row now req)"
    by simp
next
  show "length (stored_lead_row now req) = 11"
    by (simp add: stored_lead_row_def)
  show "list_all trimmed (take 8 (drop 1 (stored_lead_row now req)))"
    by (simp add: stored_lead_row_def trimmed_submitted trimmed_Nil trimmed_website_form)
  show "length (stored_subscriber_row now req) = 5"
    by (simp add: stored_subscriber_row_def)
  show "list_all trimmed (take 2 (drop 1 (stored_subscriber_row now req)))"
    by (simp add: stored_subscriber_row_def trimmed_submitted trimmed_Nil trimmed_newsletter)
qed

text \<open>
  C10 at a lead whose email is two spaces, at the same request sent to the newsletter
  handler, and at the accepted lead \<open>bob_request\<close>, whose name was sent with a leading
  space.
\<close>

theorem form_fields_stripped_witness:
  "blank blank_email_request ''email'' \<and>
   lead plain_csv default_config sample_time blank_email_request one_lead_file =
     (Abort 400 (py ''Missing required fields.''), one_lead_file) \<and>
   newsletter_subscribe plain_csv default_config sample_time blank_email_request one_lead_file =
     (Abort 400 (py ''Enter a valid email.''), one_lead_file) \<and>
   lead plain_csv default_config sample_time bob_request empty_disk =
     (Redirect 302 (py ''/thank-you''),
      appended plain_csv empty_disk (py ''leads.csv'') lead_header
        [sample_time, py ''Bob'', py ''bob@example.com'', [], [], [], [], py ''Hello'',
         py ''website_form'', py ''203.0.113.7'', []]) \<and>
   list_all trimmed
     [py ''Bob'', py ''bob@example.com'', [], [], [], [], py ''Hello'', py ''website_form'']"
proof -
  let ?fs' = "snd (lead plain_csv default_config sample_time bob_request empty_disk)"
  have b: "blank blank_email_request ''email''"
    by (simp add: blank_def blank_email_request_def string_eval)
  have ne: "submitted bob_request ''name'' [] \<noteq> []" "submitted bob_request ''email'' [] \<noteq> []"
    "submitted bob_request ''message'' [] \<noteq> []"
    by (simp_all add: bob_request_def submitted_def string_eval)
  have run: "lead plain_csv default_config sample_time bob_request empty_disk =
      (Redirect 302 (py ''/thank-you''), ?fs')"
    using lead_accepts [OF ne, of empty_disk default_config plain_csv sample_time]
    by (simp add: config_eval empty_disk_def)
  have row: "stored_lead_row sample_time bob_request =
      [sample_time, py ''Bob'', py ''bob@example.com'', [], [], [], [], py ''Hello'',
       py ''website_form'', py ''203.0.113.7'', []]"
    by (simp add: bob_request_def row_eval string_eval)
  have path: "LEADS_CSV default_config = py ''leads.csv''"
    by (simp add: config_eval)
  note at_blank = form_fields_stripped [of blank_email_request plain_csv default_config
      sample_time one_lead_file]
  note at_bob = form_fields_stripped [of bob_request plain_csv default_config sample_time
      empty_disk]
  from at_bob run have "?fs' = appended plain_csv empty_disk (LEADS_CSV default_config)
      lead_header (stored_lead_row sample_time bob_request)"
    by blast
  with run have "lead plain_csv default_config sample_time bob_request empty_disk =
      (Redirect 302 (py ''/thank-you''),
       appended plain_csv empty_disk (py ''leads.csv'') lead_header
         [sample_time, py ''Bob'', py ''bob@example.com'', [], [], [], [], py ''Hello'',
          py ''website_form'', py ''203.0.113.7'', []])"
    by (simp add: row path)
  moreover from at_bob have "list_all trimmed
      [py ''Bob'', py ''bob@example.com'', [], [], [], [], py ''Hello'', py ''website_form'']"
    by (simp add: row)
  ultimately show ?thesis using b at_blank by simp
qed

section \<open>Advertisement units\<close>

text \<open>
  C5. For every configuration and slot identifier, \<open>adsense_ad_unit\<close> returns the complete
  ad block, with the client and slot identifiers in it, when ads are enabled and the
  client identifier is not empty and the slot identifier is not empty, and the empty
  string in every other case; so the result is not empty exactly when all three conditions
  hold, and it is never a part of the block.
\<close>

theorem adsense_ad_unit_all_or_nothing:
  "adsense_ad_unit cfg slot =
     (if ADSENSE_ENABLED cfg \<and> ADSENSE_CLIENT cfg \<noteq> [] \<and> slot \<noteq> []
      then ad_block (ADSENSE_CLIENT cfg) slot else []) \<and>
   (adsense_ad_unit cfg slot \<noteq> [] \<longleftrightarrow>
      ADSENSE_ENABLED cfg \<and> ADSENSE_CLIENT cfg \<noteq> [] \<and> slot \<noteq> [])"
  by (simp add: adsense_ad_unit_def strip_ad_unit ad_block_edges)

text \<open>
  C5 with ads enabled and a client and slot configured, with the slot empty, and with the
  configuration of an empty environment.
\<close>

theorem adsense_ad_unit_all_or_nothing_witness:
  \<open>adsense_ad_unit ads_config (py ''123'') =
     py ''<div class="adbox">'' @ [10] @
     py ''  <div class="adlabel">ADVERTISEMENT</div>'' @ [10] @
     py ''  <ins class="adsbygoogle"'' @ [10] @ py ''       style="display:block"'' @ [10] @
     py ''       data-ad-client="ca-pub-1"'' @ [10] @
     py ''       data-ad-slot="123"'' @ [10] @
     py ''       data-ad-format="auto"'' @ [10] @
     py ''       data-full-width-responsive="true"></ins>'' @ [10] @
     py ''  <script>(adsbygoogle = window.adsbygoogle || []).push({});</script>'' @ [10] @
     py ''</div>'' \<and>
   adsense_ad_unit ads_config [] = [] \<and>
   adsense_ad_unit default_config (py ''123'') = []\<close>
  using adsense_ad_unit_all_or_nothing [of ads_config "py ''123''"]
    adsense_ad_unit_all_or_nothing [of ads_config "[]"]
    adsense_ad_unit_all_or_nothing [of default_config "py ''123''"]
  by (simp add: config_eval string_eval ad_block_def ad_unit_open_def ad_unit_middle_def
      ad_unit_close_def)

section \<open>Background images\<close>

text \<open>
  C8. For every file name, \<open>find_bg_file\<close> looks in \<open>static/img\<close> first and in \<open>images\<close>
  second and returns the first path that exists, or \<open>None\<close> when the file is in neither
  folder. For every page key, \<open>bg_image_for\<close> returns the public path
  \<open>/static/img/<filename>\<close> of the image of the page when that file exists in either
  folder, and \<open>None\<close> when it exists in neither (and for a key that has no image). The
  result is a function of the page key and of the existence of the two candidate files
  alone: two file-system states that agree on them give the same result. The functions
  only ask whether files exist; they return no file system, so nothing is written.
\<close>

theorem bg_image_first_match:
  "(ex STATIC_IMG_DIR f \<longrightarrow> find_bg_file ex f = Some (STATIC_IMG_DIR, f)) \<and>
   (\<not> ex STATIC_IMG_DIR f \<and> ex IMAGES_DIR f \<longrightarrow> find_bg_file ex f = Some (IMAGES_DIR, f)) \<and>
   (\<not> ex STATIC_IMG_DIR f \<and> \<not> ex IMAGES_DIR f \<longrightarrow> find_bg_file ex f = None) \<and>
   bg_image_for ex page =
     (case map_of bg_mapping page of
        None \<Rightarrow> None
      | Some g \<Rightarrow>
          if ex STATIC_IMG_DIR g \<or> ex IMAGES_DIR g then Some (py ''/static/img/'' @ g)
          else None) \<and>
   ((\<forall>g d. map_of bg_mapping page = Some g \<longrightarrow> ex' d g = ex d g) \<longrightarrow>
      bg_image_for ex' page = bg_image_for ex page)"
proof -
  have img: "\<And>e. bg_image_for e page =
     (case map_of bg_mapping page of
        None \<Rightarrow> None
      | Some g \<Rightarrow>
          if e STATIC_IMG_DIR g \<or> e IMAGES_DIR g then Some (py ''/static/img/'' @ g)
          else None)"
    by (auto simp: bg_image_for_def find_bg_file_None dest: bg_mapping_nonempty
        split: option.splits)
  have "bg_image_for ex' page = bg_image_for ex page"
    if "\<forall>g d. map_of bg_mapping page = Some g \<longrightarrow> ex' d g = ex d g"
    using that by (simp add: img split: option.splits)
  then show ?thesis
    using img [of ex] by (simp add: find_bg_file_def)
qed

text \<open>
  C8 with the home image present in \<open>images\<close> only, and present in both folders.
\<close>

theorem bg_image_first_match_witness:
  "find_bg_file only_images_dir (py ''home_bg_1920x1080.jpg'') =
     Some (IMAGES_DIR, py ''home_bg_1920x1080.jpg'') \<and>
   find_bg_file (\<lambda>d f. True) (py ''home_bg_1920x1080.jpg'') =
     Some (STATIC_IMG_DIR, py ''home_bg_1920x1080.jpg'') \<and>
   bg_image_for only_images_dir (py ''home'') = Some (py ''/static/img/home_bg_1920x1080.jpg'') \<and>
   bg_image_for only_images_dir (py ''blog'') = None \<and>
   bg_image_for only_images_dir (py ''newsletter'') = None"
  using bg_image_first_match [of only_images_dir "py ''home_bg_1920x1080.jpg''" "py ''home''"]
    bg_image_first_match [of "\<lambda>d f. True" "py ''home_bg_1920x1080.jpg''" "py ''home''"]
    bg_image_first_match [of only_images_dir "py ''home_bg_1920x1080.jpg''" "py ''blog''"]
    bg_image_first_match [of only_images_dir "py ''home_bg_1920x1080.jpg''" "py ''newsletter''"]
  by (simp add: only_images_dir_def bg_mapping_def py_def)

section \<open>The sitemap\<close>

text \<open>
  C6, as stated, fails for the configured registry: there are eight static page routes
  and two posts, and the sitemap has nine entries; the page \<open>/newsletter/thanks\<close> is not
  listed.
\<close>

theorem sitemap_count_counterexample:
  "length (sitemap_pages plain_library default_config BLOG_POSTS) = 9 \<and>
   length static_page_routes + length BLOG_POSTS = 10 \<and>
   EP_newsletter_thanks \<in> set static_page_routes \<and>
   site_url default_config (url_for EP_newsletter_thanks) \<notin>
     fst ` set (sitemap_pages plain_library default_config BLOG_POSTS)"
  by (simp add: sitemap_pages_def static_page_routes_eq BLOG_POSTS_def site_url_def url_for_def
      url_for_blog_post_def plain_library_def default_domain post_slugs py_def)

text \<open>
  C6, amended. The sitemap lists one \<open><url>\<close> entry for each static page route except
  \<open>/newsletter/thanks\<close> (home, insights, blog, start, privacy, terms, thank-you), followed
  by one entry for each post of the registry, so its entry count is the number of static
  page routes less one plus the number of posts. Every entry carries a change frequency and
  a priority: the home page has priority 1.0, the highest; insights, blog and start have
  0.7; the posts have 0.6; privacy and terms have 0.2 and thank-you has 0.1, the lowest of
  the static pages. The response has status 200 and type \<open>application/xml\<close>.
\<close>

theorem sitemap_entries:
  "length (sitemap_pages lib cfg posts) = (length static_page_routes - 1) + length posts \<and>
   map fst (take 7 (sitemap_pages lib cfg posts)) =
     map (\<lambda>e. site_url cfg (url_for e))
       [EP_home, EP_insights, EP_blog, EP_start, EP_privacy, EP_terms, EP_thank_you] \<and>
   set [EP_home, EP_insights, EP_blog, EP_start, EP_privacy, EP_terms, EP_thank_you] =
     set static_page_routes - {EP_newsletter_thanks} \<and>
   map (\<lambda>e. (fst (snd e), tenths (snd (snd e)))) (take 7 (sitemap_pages lib cfg posts)) =
     [(py ''weekly'', Some 10), (py ''weekly'', Some 7), (py ''weekly'', Some 7),
      (py ''monthly'', Some 7), (py ''yearly'', Some 2), (py ''yearly'', Some 2),
      (py ''yearly'', Some 1)] \<and>
   drop 7 (sitemap_pages lib cfg posts) =
     map (\<lambda>p. (site_url cfg (py ''/blog/'' @ url_quote lib (slug p)), py ''monthly'', py ''0.6''))
       posts \<and>
   tenths (py ''0.6'') = Some 6 \<and>
   length (filter (\<lambda>l. l = py ''  <url>'') (sitemap_lines (sitemap_pages lib cfg posts))) =
     length (sitemap_pages lib cfg posts) \<and>
   sitemap lib cfg posts =
     Content 200 ''application/xml'' (join [10] (sitemap_lines (sitemap_pages lib cfg posts)))"
proof -
  have "set [EP_home, EP_insights, EP_blog, EP_start, EP_privacy, EP_terms, EP_thank_you] =
     set static_page_routes - {EP_newsletter_thanks}"
    by (auto simp: static_page_routes_eq)
  moreover have "map (\<lambda>e. (fst (snd e), tenths (snd (snd e)))) (take 7 (sitemap_pages lib cfg posts)) =
     [(py ''weekly'', Some 10), (py ''weekly'', Some 7), (py ''weekly'', Some 7),
      (py ''monthly'', Some 7), (py ''yearly'', Some 2), (py ''yearly'', Some 2),
      (py ''yearly'', Some 1)]"
    by (simp add: sitemap_pages_def py_def digit_def)
  moreover have "tenths (py ''0.6'') = Some 6"
    by (simp add: py_def digit_def)
  ultimately show ?thesis
    by (simp add: sitemap_pages_def static_page_routes_eq url_for_blog_post_def
        sitemap_url_count sitemap_def)
qed

text \<open>
  The amended C6 for the configured registry, and for the registry with its first post
  removed.
\<close>

theorem sitemap_entries_witness:
  "map fst (sitemap_pages plain_library default_config BLOG_POSTS) =
     [py ''/'', py ''/insights'', py ''/blog'', py ''/start'', py ''/privacy'', py ''/terms'',
      py ''/thank-you'', py ''/blog/positioning-before-promotion'',
      py ''/blog/the-signal-audit-framework''] \<and>
   length (sitemap_pages plain_library default_config (tl BLOG_POSTS)) = 8"
proof -
  note at_posts = sitemap_entries [of plain_library default_config BLOG_POSTS]
  note at_tail = sitemap_entries [of plain_library default_config "tl BLOG_POSTS"]
  have "map fst (sitemap_pages plain_library default_config BLOG_POSTS) =
      map fst (take 7 (sitemap_pages plain_library default_config BLOG_POSTS)) @
      map fst (drop 7 (sitemap_pages plain_library default_config BLOG_POSTS))"
    by (metis append_take_drop_id map_append)
  with at_posts at_tail show ?thesis
    by (simp add: static_page_routes_eq BLOG_POSTS_def site_url_def url_for_def
      plain_library_def default_domain post_slugs py_def)
qed

section \<open>Blog posts\<close>

text \<open>
  C7. For every slug, \<open>GET /blog/<slug>\<close> answers with status 404 when no post of the
  registry has that slug. For the slug of a configured post it answers with status 200 and
  an HTML body that includes the title of the post, provided that the template engine
  renders the body of the post without raising.
\<close>

theorem blog_post_found_or_404:
  "(s \<notin> slug ` set posts \<longrightarrow> blog_post lib cfg ex posts s = Abort 404 []) \<and>
   (\<forall>p\<in>set BLOG_POSTS. \<forall>b.
      render_runtime_template lib (blog_post_body lib cfg p) (bg_image_for ex (py ''blog'')) =
        Some b \<longrightarrow>
      (\<exists>page. blog_post lib cfg ex BLOG_POSTS (slug p) = Content 200 ''text/html'' page \<and>
         sublist (title p) page))"
proof (intro conjI impI ballI allI)
  assume "s \<notin> slug ` set posts"
  then show "blog_post lib cfg ex posts s = Abort 404 []" by (rule blog_post_unknown)
next
  fix p b
  assume p: "p \<in> set BLOG_POSTS"
    and r: "render_runtime_template lib (blog_post_body lib cfg p) (bg_image_for ex (py ''blog'')) =
      Some b"
  from blog_post_known [OF configured_post(1) [OF p] r] configured_post(2) [OF p]
  show "\<exists>page. blog_post lib cfg ex BLOG_POSTS (slug p) = Content 200 ''text/html'' page \<and>
      sublist (title p) page"
    by simp
qed

text \<open>
  C7 at an unknown slug and at the slug of the second configured post.
\<close>

theorem blog_post_found_or_404_witness:
  "blog_post plain_library default_config only_images_dir BLOG_POSTS (py ''unknown-slug'') =
     Abort 404 [] \<and>
   status (blog_post plain_library default_config only_images_dir BLOG_POSTS
     (py ''the-signal-audit-framework'')) = 200 \<and>
   (case blog_post plain_library default_config only_images_dir BLOG_POSTS
       (py ''the-signal-audit-framework'') of
      Content c t page \<Rightarrow> sublist (py ''The Signal Audit Framework'') page
    | _ \<Rightarrow> False)"
proof -
  note at_unknown = blog_post_found_or_404 [of "py ''unknown-slug''" BLOG_POSTS plain_library
      default_config only_images_dir]
  have "py ''unknown-slug'' \<notin> slug ` set BLOG_POSTS"
    by (simp add: BLOG_POSTS_def post_slugs py_def)
  with at_unknown have a: "blog_post plain_library default_config only_images_dir BLOG_POSTS
      (py ''unknown-slug'') = Abort 404 []"
    by blast
  have "post2 \<in> set BLOG_POSTS" by (simp add: BLOG_POSTS_def)
  moreover have "render_runtime_template plain_library
      (blog_post_body plain_library default_config post2)
      (bg_image_for only_images_dir (py ''blog'')) =
    Some (blog_post_body plain_library default_config post2)"
    by (simp add: plain_library_def)
  ultimately obtain page where
    "blog_post plain_library default_config only_images_dir BLOG_POSTS (slug post2) =
       Content 200 ''text/html'' page"
    "sublist (title post2) page"
    using at_unknown by blast
  with a show ?thesis by (simp add: post_slugs post_titles)
qed

end
